theory Spec2Isabelle
  imports Complex_Main "HOL-Library.Sublist"
begin

section \<open>JavaScript values\<close>

text \<open>
  Strings are lists of characters. An optional property of an object is an \<open>option\<close>:
  \<open>None\<close> is \<^verbatim>\<open>undefined\<close> (or \<^verbatim>\<open>null\<close>). A string is truthy when it is
  present and not empty; an array is truthy whenever it is present, also when empty.
\<close>

definition truthy :: "string option \<Rightarrow> bool" where
  "truthy v = (case v of None \<Rightarrow> False | Some s \<Rightarrow> s \<noteq> [])"

definition orEmpty :: "string option \<Rightarrow> string" where
  \<comment> \<open>\<^verbatim>\<open>v || ''\<close>\<close>
  "orEmpty v = (case v of None \<Rightarrow> [] | Some s \<Rightarrow> s)"

definition startsWith :: "string \<Rightarrow> string \<Rightarrow> bool" where
  \<comment> \<open>\<^verbatim>\<open>s.startsWith(p)\<close>\<close>
  "startsWith s p = prefix p s"

definition endsWith :: "string \<Rightarrow> string \<Rightarrow> bool" where
  \<comment> \<open>\<^verbatim>\<open>s.endsWith(p)\<close>\<close>
  "endsWith s p = suffix p s"

definition str_includes :: "string \<Rightarrow> string \<Rightarrow> bool" where
  \<comment> \<open>\<^verbatim>\<open>s.includes(p)\<close>\<close>
  "str_includes s p = sublist p s"

definition isSpace :: "char \<Rightarrow> bool" where
  \<comment> \<open>The white space and line terminators of \<^verbatim>\<open>\s\<close> and \<^verbatim>\<open>trim\<close> that fit in one
      character: TAB, LF, VT, FF, CR, SPACE and NBSP.\<close>
  "isSpace c = (of_char c \<in> {9, 10, 11, 12, 13, 32, 160 :: nat})"

definition trim :: "string \<Rightarrow> string" where
  "trim s = rev (dropWhile isSpace (rev (dropWhile isSpace s)))"

fun digitsOf :: "nat \<Rightarrow> string" where
  "digitsOf n =
     (if n < 10 then [char_of (48 + n)] else digitsOf (n div 10) @ [char_of (48 + n mod 10)])"

section \<open>Data model (types.ts)\<close>

datatype Sender = User | Ai

datatype ModelId = Pro | Flash | FlashLite | FlashLiteMaps | FlashImage

fun modelName :: "ModelId \<Rightarrow> string" where
  "modelName Pro = ''gemini-2.5-pro''"
| "modelName Flash = ''gemini-2.5-flash''"
| "modelName FlashLite = ''gemini-2.5-flash-lite''"
| "modelName FlashLiteMaps = ''gemini-2.5-flash-lite-maps''"
| "modelName FlashImage = ''gemini-2.5-flash-image''"

definition MODELS :: "ModelId list" where
  \<comment> \<open>\<^verbatim>\<open>Object.keys(MODELS)\<close>\<close>
  "MODELS = [Pro, Flash, FlashLite, FlashLiteMaps, FlashImage]"

record TokenDetail =
  modality :: "string option"
  tokenCount :: "nat option"

record UsageMetadata =
  promptTokenCount :: "nat option"
  candidatesTokenCount :: "nat option"
  totalTokenCount :: "nat option"
  thoughtsTokenCount :: "nat option"
  cachedContentTokenCount :: "nat option"
  toolUsePromptTokenCount :: "nat option"
  promptTokensDetails :: "TokenDetail list option"
  toolUsePromptTokensDetails :: "TokenDetail list option"

record Attachment =
  att_base64 :: string
  att_mimeType :: string
  att_name :: string

record Source =
  uri :: string
  src_title :: string
  placeId :: "string option"

record Image =
  base64 :: string
  mimeType :: string

record Message =
  msg_id :: string
  sender :: Sender
  msg_text :: string
  timestamp :: string
  thoughts :: "string option"
  thinkingTime :: "real option"
  imagePreviews :: "string list option"
  files :: "Attachment list option"
  sources :: "Source list option"
  suggestions :: "string list option"
  fullText :: "string option"
  usageMetadata :: "UsageMetadata option"
  executableCode :: "string option"
  codeExecutionResult :: "string option"
  codeExecutionImages :: "Image list option"
  generatedImages :: "Image list option"

record Conversation =
  conv_id :: string
  conv_title :: string
  messages :: "Message list"
  model :: ModelId

record Content =
  role :: string
  parts :: "string list"

text \<open>A browser \<^verbatim>\<open>File\<close>: the three properties the application reads.\<close>

record File =
  file_name :: string
  file_size :: nat
  file_type :: string

section \<open>File validation (utils/fileValidation)\<close>

record FileValidationResult =
  valid :: "File list"
  errors :: "string list"

definition MAX_FILE_SIZE :: nat where
  "MAX_FILE_SIZE = 50 * 1024 * 1024"

definition ALLOWED_TYPES :: "string list" where
  "ALLOWED_TYPES = [''image/'', ''application/pdf'']"

definition validateFile :: "FileValidationResult \<Rightarrow> File \<Rightarrow> FileValidationResult" where
  \<comment> \<open>the body of the \<^verbatim>\<open>forEach\<close> callback\<close>
  "validateFile r f =
     (if file_size f > MAX_FILE_SIZE
      then r\<lparr>errors := errors r @ [file_name f @ '' exceeds 50MB limit'']\<rparr>
      else if \<not> list_ex (\<lambda>t. startsWith (file_type f) t) ALLOWED_TYPES
      then r\<lparr>errors := errors r @
             [file_name f @ '' is not an allowed file type (only images and PDFs are supported)'']\<rparr>
      else r\<lparr>valid := valid r @ [f]\<rparr>)"

definition validateFiles :: "File list \<Rightarrow> FileValidationResult" where
  "validateFiles fs = foldl validateFile \<lparr>valid = [], errors = []\<rparr> fs"



section \<open>Persistent store (fetchConversations, saveConversations)\<close>

text \<open>
  The slot \<^verbatim>\<open>chatHistory\<close> of \<^verbatim>\<open>localStorage\<close> holds a string. The model keeps what
  \<^verbatim>\<open>JSON.parse\<close> makes of it: nothing parsable, a value that is not an array, or an array
  of conversation-shaped objects whose properties may be missing and whose model is any
  string. \<^verbatim>\<open>JSON.stringify\<close> followed by \<^verbatim>\<open>JSON.parse\<close> is taken to give back a
  message as it was: its properties are strings, finite numbers and arrays of such, and a
  property that is \<^verbatim>\<open>undefined\<close> is left out and read back as \<^verbatim>\<open>undefined\<close>.
  The loader reads the clock once for all the conversations that lack an identifier.
\<close>

record StoredConversation =
  s_id :: "string option"
  s_title :: "string option"
  s_messages :: "Message list option"
  s_model :: "string option"

datatype Payload = EmptyString | Unparsable | NonArray | ConvArray "StoredConversation list"

datatype StorageFault = NoFault | QuotaExceededError | OtherFault

definition coerceModel :: "string option \<Rightarrow> ModelId" where
  \<comment> \<open>\<^verbatim>\<open>convo.model && Object.keys(MODELS).includes(convo.model) ? convo.model : 'gemini-2.5-pro'\<close>\<close>
  "coerceModel m =
     (if truthy m
      then (case find (\<lambda>k. modelName k = orEmpty m) MODELS of Some k \<Rightarrow> k | None \<Rightarrow> Pro)
      else Pro)"

definition loadConversation :: "nat \<Rightarrow> StoredConversation \<Rightarrow> Conversation" where
  \<comment> \<open>the callback of \<^verbatim>\<open>parsed.map\<close>; \<open>now\<close> is \<^verbatim>\<open>Date.now()\<close>\<close>
  "loadConversation now convo =
     \<lparr>conv_id = (if truthy (s_id convo) then orEmpty (s_id convo) else digitsOf now),
      conv_title = (if truthy (s_title convo) then orEmpty (s_title convo) else ''Untitled Chat''),
      messages = (case s_messages convo of Some ms \<Rightarrow> ms | None \<Rightarrow> []),
      model = coerceModel (s_model convo)\<rparr>"

definition fetchConversations :: "nat \<Rightarrow> Payload option \<Rightarrow> Conversation list \<times> Payload option" where
  \<comment> \<open>returns the conversations and the slot as the call leaves it\<close>
  "fetchConversations now saved =
     (case saved of
        None \<Rightarrow> ([], saved)
      | Some EmptyString \<Rightarrow> ([], saved)
      | Some Unparsable \<Rightarrow> ([], None)
      | Some NonArray \<Rightarrow> ([], saved)
      | Some (ConvArray parsed) \<Rightarrow>
          (if length parsed > 0 then (map (loadConversation now) parsed, saved) else ([], saved)))"

definition withoutImages :: "Message \<Rightarrow> Message" where
  \<comment> \<open>the callback of \<^verbatim>\<open>convo.messages.map\<close> in \<^verbatim>\<open>saveConversations\<close>\<close>
  "withoutImages msg = (if generatedImages msg \<noteq> None then msg\<lparr>generatedImages := None\<rparr> else msg)"

definition toStored :: "Conversation \<Rightarrow> StoredConversation" where
  \<comment> \<open>what \<^verbatim>\<open>JSON.stringify\<close> writes for one element of \<^verbatim>\<open>conversationsToSave\<close>\<close>
  "toStored convo =
     \<lparr>s_id = Some (conv_id convo), s_title = Some (conv_title convo),
      s_messages = Some (map withoutImages (messages convo)),
      s_model = Some (modelName (model convo))\<rparr>"

definition saveConversations ::
    "StorageFault \<Rightarrow> Conversation list \<Rightarrow> Payload option \<Rightarrow> (string + Conversation list) \<times> Payload option" where
  \<comment> \<open>\<open>fault\<close> says whether \<^verbatim>\<open>setItem\<close> (or \<^verbatim>\<open>removeItem\<close>) throws, and what\<close>
  "saveConversations fault conversations slot =
     (if length conversations > 0
      then (case fault of
              NoFault \<Rightarrow> (Inr conversations, Some (ConvArray (map toStored conversations)))
            | QuotaExceededError \<Rightarrow>
                (Inl ''Storage quota exceeded. Your chat history could not be saved. Please clear some browser data.'', slot)
            | OtherFault \<Rightarrow>
                (Inl ''Failed to save chat history. Please check your browser settings.'', slot))
      else (case fault of
              NoFault \<Rightarrow> (Inr conversations, None)
            | _ \<Rightarrow> (Inl ''Failed to clear chat history.'', slot)))"

section \<open>Streaming chunks (updateStreamingMessage)\<close>

record Chunk =
  chunk_text :: "string option"
  chunk_thought :: "string option"
  chunk_sources :: "Source list option"
  chunk_executableCode :: "string option"
  chunk_codeExecutionResult :: "string option"
  chunk_codeExecutionImages :: "Image list option"
  chunk_generatedImages :: "Image list option"

definition emptyChunk :: Chunk where
  "emptyChunk =
     \<lparr>chunk_text = None, chunk_thought = None, chunk_sources = None, chunk_executableCode = None,
      chunk_codeExecutionResult = None, chunk_codeExecutionImages = None,
      chunk_generatedImages = None\<rparr>"

definition isStreaming :: "Message \<Rightarrow> bool" where
  \<comment> \<open>\<^verbatim>\<open>msg.id.endsWith('-ai') && !msg.timestamp\<close>\<close>
  "isStreaming msg = (endsWith (msg_id msg) ''-ai'' \<and> timestamp msg = [])"

definition mergeSources :: "Source list option \<Rightarrow> Source list \<Rightarrow> Source list" where
  "mergeSources old new =
     (let existingSources = (case old of Some xs \<Rightarrow> xs | None \<Rightarrow> []);
          newSources = filter (\<lambda>sNew. \<not> list_ex (\<lambda>sOld. uri sOld = uri sNew) existingSources) new
      in existingSources @ newSources)"

definition applyChunk :: "Chunk \<Rightarrow> Message \<Rightarrow> Message" where
  \<comment> \<open>the seven \<^verbatim>\<open>if\<close> statements on \<^verbatim>\<open>updatedMsg\<close>, in the order of the source\<close>
  "applyChunk chunk msg =
     (let m1 = (if truthy (chunk_text chunk)
                then msg\<lparr>msg_text := msg_text msg @ orEmpty (chunk_text chunk)\<rparr> else msg);
          m2 = (if truthy (chunk_thought chunk)
                then m1\<lparr>thoughts := Some (orEmpty (thoughts m1) @ orEmpty (chunk_thought chunk))\<rparr>
                else m1);
          m3 = (if truthy (chunk_executableCode chunk)
                then m2\<lparr>executableCode :=
                          Some (orEmpty (executableCode m2) @ orEmpty (chunk_executableCode chunk))\<rparr>
                else m2);
          m4 = (if truthy (chunk_codeExecutionResult chunk)
                then m3\<lparr>codeExecutionResult :=
                          Some (orEmpty (codeExecutionResult m3) @ orEmpty (chunk_codeExecutionResult chunk))\<rparr>
                else m3);
          m5 = (case chunk_codeExecutionImages chunk of
                  Some imgs \<Rightarrow> m4\<lparr>codeExecutionImages := Some imgs\<rparr> | None \<Rightarrow> m4);
          m6 = (case chunk_sources chunk of
                  Some srcs \<Rightarrow> m5\<lparr>sources := Some (mergeSources (sources m5) srcs)\<rparr> | None \<Rightarrow> m5);
          m7 = (case chunk_generatedImages chunk of
                  Some imgs \<Rightarrow> m6\<lparr>generatedImages := Some imgs\<rparr> | None \<Rightarrow> m6)
      in m7)"

definition patchMessage :: "Chunk \<Rightarrow> Message \<Rightarrow> Message" where
  "patchMessage chunk msg = (if isStreaming msg then applyChunk chunk msg else msg)"

definition patchConversation :: "string \<Rightarrow> Chunk \<Rightarrow> Conversation \<Rightarrow> Conversation" where
  "patchConversation conversationId chunk convo =
     (if conv_id convo = conversationId
      then convo\<lparr>messages := map (patchMessage chunk) (messages convo)\<rparr>
      else convo)"

section \<open>Application state (App component)\<close>

text \<open>
  The state of the component: the query cache entry \<^verbatim>\<open>['conversations']\<close> (the
  conversation repository; \<open>None\<close> before the first load), the storage slot, the React
  state variables and the ref \<^verbatim>\<open>activeStreamingRef\<close>. A handler reads its closure
  variables (\<^verbatim>\<open>conversations\<close>, \<^verbatim>\<open>conversationsMap\<close>, \<^verbatim>\<open>isProSession\<close>, ...) from the
  state it runs in. \<open>effects\<close> records, in order, the mutations handed to the query library
  and the calls made to the service module; the timers that clear a banner after five
  seconds are not part of the state.

  Every handler and every hook of a mutation is a function from state to state, run to its
  end before the next one starts. What the environment answers while one runs is an
  argument: the reading of the clock (one reading for each call of a handler), the
  formatted timestamp, whether a write to the storage throws, and what the service does
  during a generation. A mutation of the conversation list (\<^verbatim>\<open>mutate\<close> or
  \<^verbatim>\<open>mutateAsync\<close>) runs to its end where it is issued, with one exception:
  \<^verbatim>\<open>handleSendMessage\<close> may start two mutations in one call, the update that sets the
  title \<^verbatim>\<open>Chat with Files\<close> and the send. Their hooks interleave: both \<^verbatim>\<open>onMutate\<close>
  hooks run, in the order of the two calls of \<^verbatim>\<open>mutate\<close>, before the write of the
  update and its \<^verbatim>\<open>onSuccess\<close> or \<^verbatim>\<open>onError\<close>, and these run before the first answer of
  the service. So the handler only records what it starts, and the run of the send carries
  out both. The generation of a title is recorded as started; its result arrives, if ever,
  as a later update of the list.
\<close>

datatype Thrown = Error string | NonError

record SendVars =
  v_text :: string
  v_files :: "File list"
  userMessage :: Message
  aiMessagePlaceholder :: Message
  targetConversationId :: string

datatype Effect =
    Mutate_updateConversations "Conversation list"
  | Mutate_sendMessage SendVars
  | Mutate_generateChatTitle string string
  | Call_startNewChatSession ModelId "Content list"
  | Call_streamGeminiResponse string "File list"
  | Call_generateImage string "File list" string

record App =
  queryData :: "Conversation list option"
  localStorage :: "Payload option"
  activeConversationId :: "string option"
  isLoading :: bool
  selectedModel :: ModelId
  activeModel :: ModelId
  isProSession :: bool
  aspectRatio :: string
  apiKey :: "string option"
  showApiKeyModal :: bool
  fileErrors :: "string list"
  storageError :: "string option"
  activeStreamingRef :: "string option"
  effects :: "Effect list"

definition conversations :: "App \<Rightarrow> Conversation list" where
  \<comment> \<open>\<^verbatim>\<open>data: conversations = []\<close>, and \<^verbatim>\<open>getQueryData(...) || []\<close>\<close>
  "conversations s = (case queryData s of Some cs \<Rightarrow> cs | None \<Rightarrow> [])"

definition conversationsMap_get :: "Conversation list \<Rightarrow> string \<Rightarrow> Conversation option" where
  \<comment> \<open>\<^verbatim>\<open>new Map(conversations.map(c => [c.id, c])).get(k)\<close>: a later entry replaces an
      earlier one with the same key\<close>
  "conversationsMap_get cs k = map_of (rev (map (\<lambda>c. (conv_id c, c)) cs)) k"

definition isContentful :: "Message \<Rightarrow> bool" where
  \<comment> \<open>\<^verbatim>\<open>!m.id.startsWith('initial-') && m.text && m.text.trim() !== ''\<close>\<close>
  "isContentful m = (\<not> startsWith (msg_id m) ''initial-'' \<and> msg_text m \<noteq> [] \<and> trim (msg_text m) \<noteq> [])"

definition mapMessagesToHistory :: "Message list \<Rightarrow> Content list" where
  "mapMessagesToHistory ms =
     map (\<lambda>msg. \<lparr>role = (if sender msg = User then ''user'' else ''model''), parts = [msg_text msg]\<rparr>)
       (filter isContentful ms)"

definition chatHistory :: "App \<Rightarrow> Content list" where
  "chatHistory s =
     mapMessagesToHistory
       (case conversationsMap_get (conversations s) (orEmpty (activeConversationId s)) of
          Some c \<Rightarrow> messages c | None \<Rightarrow> [])"

definition updateStreamingMessage :: "string \<Rightarrow> Chunk \<Rightarrow> App \<Rightarrow> App" where
  "updateStreamingMessage conversationId chunk s =
     s\<lparr>queryData := Some (map (patchConversation conversationId chunk) (conversations s))\<rparr>"

subsection \<open>updateConversationsMutation\<close>

definition updateConversationsAsync :: "StorageFault \<Rightarrow> Conversation list \<Rightarrow> App \<Rightarrow> Thrown option \<times> App" where
  \<comment> \<open>\<^verbatim>\<open>mutateAsync\<close>: \<^verbatim>\<open>onMutate\<close>, \<^verbatim>\<open>saveConversations\<close>, then \<^verbatim>\<open>onSuccess\<close> or
      \<^verbatim>\<open>onError\<close>; the result is what the returned promise rejects with\<close>
  "updateConversationsAsync fault newConversations s =
     (let previousConversations = queryData s;
          s1 = s\<lparr>queryData := Some newConversations,
                 effects := effects s @ [Mutate_updateConversations newConversations]\<rparr>
      in case saveConversations fault newConversations (localStorage s1) of
           (Inr savedConversations, slot) \<Rightarrow>
             (None, s1\<lparr>localStorage := slot, queryData := Some savedConversations\<rparr>)
         | (Inl message, slot) \<Rightarrow>
             (Some (Error message),
              (case previousConversations of
                 Some previous \<Rightarrow> s1\<lparr>localStorage := slot, queryData := Some previous\<rparr>
               | None \<Rightarrow> s1\<lparr>localStorage := slot\<rparr>)\<lparr>storageError := Some message\<rparr>))"

definition updateConversations :: "StorageFault \<Rightarrow> Conversation list \<Rightarrow> App \<Rightarrow> App" where
  \<comment> \<open>\<^verbatim>\<open>mutate\<close>, and \<^verbatim>\<open>mutateAsync(...).catch(...)\<close>: the rejection is dropped\<close>
  "updateConversations fault newConversations s = snd (updateConversationsAsync fault newConversations s)"

text \<open>
  The same mutation in two phases, for the update that \<^verbatim>\<open>handleSendMessage\<close> starts next to
  a send: the hook \<^verbatim>\<open>onMutate\<close>, which returns the snapshot, and the rest of the run.
\<close>

definition updateConversations_onMutate ::
    "Conversation list \<Rightarrow> App \<Rightarrow> Conversation list option \<times> App" where
  "updateConversations_onMutate newConversations s =
     (queryData s, s\<lparr>queryData := Some newConversations\<rparr>)"

definition updateConversations_settle ::
    "StorageFault \<Rightarrow> Conversation list \<Rightarrow> Conversation list option \<Rightarrow> App \<Rightarrow> App" where
  \<comment> \<open>\<^verbatim>\<open>saveConversations\<close>, then \<^verbatim>\<open>onSuccess\<close> or \<^verbatim>\<open>onError\<close>\<close>
  "updateConversations_settle fault newConversations previousConversations s =
     (case saveConversations fault newConversations (localStorage s) of
        (Inr savedConversations, slot) \<Rightarrow>
          s\<lparr>localStorage := slot, queryData := Some savedConversations\<rparr>
      | (Inl message, slot) \<Rightarrow>
          (case previousConversations of
             Some previous \<Rightarrow> s\<lparr>localStorage := slot, queryData := Some previous\<rparr>
           | None \<Rightarrow> s\<lparr>localStorage := slot\<rparr>)\<lparr>storageError := Some message\<rparr>)"

subsection \<open>handleSendMessage\<close>

definition pleaseWait :: string where
  "pleaseWait = ''Please wait for the current message to finish before sending another.''"

definition blankMessage :: Message where
  "blankMessage =
     \<lparr>msg_id = [], sender = User, msg_text = [], timestamp = [], thoughts = None,
      thinkingTime = None, imagePreviews = None, files = None, sources = None,
      suggestions = None, fullText = None, usageMetadata = None, executableCode = None,
      codeExecutionResult = None, codeExecutionImages = None, generatedImages = None\<rparr>"

definition newUserMessage :: "nat \<Rightarrow> string \<Rightarrow> string \<Rightarrow> File list \<Rightarrow> Message" where
  "newUserMessage now stamp txt validFiles =
     blankMessage\<lparr>msg_id := digitsOf now, sender := User, msg_text := txt, timestamp := stamp,
       files := (if length validFiles > 0
                 then Some (map (\<lambda>f. \<lparr>att_base64 = [], att_mimeType = file_type f, att_name = file_name f\<rparr>)
                              validFiles)
                 else None)\<rparr>"

definition newPlaceholder :: "nat \<Rightarrow> Message" where
  "newPlaceholder now =
     blankMessage\<lparr>msg_id := digitsOf now @ ''-ai'', sender := Ai, msg_text := [],
       thoughts := Some [], timestamp := []\<rparr>"

record Started =
  send_vars :: SendVars
  title_update :: "Conversation list option"

definition handleSendMessage ::
    "nat \<Rightarrow> string \<Rightarrow> string \<Rightarrow> File list \<Rightarrow> App \<Rightarrow> App \<times> Started option" where
  \<comment> \<open>\<open>now\<close> is \<^verbatim>\<open>Date.now()\<close> (one reading for both identifiers), \<open>stamp\<close> is
      \<^verbatim>\<open>getFormattedTimestamp()\<close>. The result holds what the call started: the variables of
      the send mutation and, for a first message made of files only, the list handed to
      the update mutation.\<close>
  "handleSendMessage now stamp txt fs s =
     (if \<not> truthy (apiKey s) then (s\<lparr>showApiKeyModal := True\<rparr>, None)
      else
        let r = validateFiles fs in
        if length (errors r) > 0 then (s\<lparr>fileErrors := errors r\<rparr>, None)
        else
          let s1 = s\<lparr>fileErrors := []\<rparr> in
          case conversationsMap_get (conversations s1) (orEmpty (activeConversationId s1)) of
            None \<Rightarrow> (s1, None)
          | Some currentConvo \<Rightarrow>
              (case activeConversationId s1 of
                 None \<Rightarrow> (s1, None)
               | Some target \<Rightarrow>
                   if target = [] then (s1, None)
                   else if activeStreamingRef s1 \<noteq> None \<and> activeStreamingRef s1 \<noteq> Some target
                   then (s1\<lparr>fileErrors := [pleaseWait]\<rparr>, None)
                   else
                     let validFiles = valid r;
                         vars = \<lparr>v_text = txt, v_files = validFiles,
                                 userMessage = newUserMessage now stamp txt validFiles,
                                 aiMessagePlaceholder = newPlaceholder now,
                                 targetConversationId = target\<rparr>;
                         isFirstUserMessage =
                           (length (filter (\<lambda>m. sender m = User) (messages currentConvo)) = 0);
                         updatedWithTitle =
                           map (\<lambda>c. if conv_id c = target
                                    then c\<lparr>conv_title := ''Chat with Files''\<rparr> else c)
                             (conversations s1);
                         titled =
                           (if isFirstUserMessage \<and> (trim txt \<noteq> [] \<or> length validFiles > 0)
                            then (if trim txt \<noteq> []
                                  then (s1\<lparr>effects := effects s1 @ [Mutate_generateChatTitle txt target]\<rparr>,
                                        None)
                                  else (s1\<lparr>effects := effects s1 @
                                              [Mutate_updateConversations updatedWithTitle]\<rparr>,
                                        Some updatedWithTitle))
                            else (s1, None));
                         s2 = fst titled
                     in (s2\<lparr>isLoading := True, activeStreamingRef := Some target,
                            effects := effects s2 @ [Mutate_sendMessage vars]\<rparr>,
                         Some \<lparr>send_vars = vars, title_update = snd titled\<rparr>)))"

subsection \<open>sendMessageMutation\<close>

text \<open>
  The expression \<^verbatim>\<open>/https?:\/\/[^\s/$.?#].[^\s]*/gi\<close>: the letters match in either case,
  the character after the two slashes is neither white space nor one of \<^verbatim>\<open>/ $ . ? #\<close>,
  the next one is any character but a line terminator, and the rest may be empty.
\<close>

definition toLowerCase :: "char \<Rightarrow> char" where
  "toLowerCase c =
     (if 65 \<le> (of_char c :: nat) \<and> (of_char c :: nat) \<le> 90 then char_of (of_char c + 32 :: nat) else c)"

fun matchLetters :: "string \<Rightarrow> string \<Rightarrow> string option" where
  "matchLetters [] s = Some s"
| "matchLetters (p # ps) [] = None"
| "matchLetters (p # ps) (c # cs) = (if toLowerCase c = p then matchLetters ps cs else None)"

fun matchUrlTail :: "string \<Rightarrow> bool" where
  "matchUrlTail (a # b # c # c1 # c2 # rest) =
     (a = CHR '':'' \<and> b = CHR ''/'' \<and> c = CHR ''/'' \<and>
      \<not> isSpace c1 \<and> c1 \<notin> set ''/$.?#'' \<and> c2 \<noteq> CHR 0x0A \<and> c2 \<noteq> CHR 0x0D)"
| "matchUrlTail _ = False"

definition matchUrlAt :: "string \<Rightarrow> bool" where
  "matchUrlAt s =
     (case matchLetters ''http'' s of
        None \<Rightarrow> False
      | Some r \<Rightarrow>
          (case matchLetters ''s'' r of Some r' \<Rightarrow> matchUrlTail r' | None \<Rightarrow> False) \<or> matchUrlTail r)"

fun urlRegex_test :: "string \<Rightarrow> bool" where
  "urlRegex_test [] = False"
| "urlRegex_test (c # cs) = (matchUrlAt (c # cs) \<or> urlRegex_test cs)"

definition requiresProModelNow :: "string \<Rightarrow> File list \<Rightarrow> bool" where
  "requiresProModelNow txt fs = (length fs > 0 \<or> urlRegex_test txt)"

definition targetModel :: "bool \<Rightarrow> ModelId \<Rightarrow> string \<Rightarrow> File list \<Rightarrow> ModelId" where
  \<comment> \<open>from the values of \<^verbatim>\<open>isProSession\<close> and \<^verbatim>\<open>selectedModel\<close>\<close>
  "targetModel isPro selected txt fs =
     (let shouldBeProSession = (isPro \<or> requiresProModelNow txt fs);
          isImageModel = (selected = FlashImage)
      in if isImageModel then FlashImage else if shouldBeProSession then Pro else selected)"

fun findIndex :: "('a \<Rightarrow> bool) \<Rightarrow> 'a list \<Rightarrow> nat option" where
  "findIndex P [] = None"
| "findIndex P (x # xs) = (if P x then Some 0 else map_option Suc (findIndex P xs))"

record MutateResult =
  startTime :: real
  ctx_conversationId :: "string option"
  previousConversations :: "Conversation list option"

definition sendMessage_onMutate :: "real \<Rightarrow> SendVars \<Rightarrow> App \<Rightarrow> MutateResult \<times> App" where
  \<comment> \<open>\<open>perfNow\<close> is \<^verbatim>\<open>performance.now()\<close>\<close>
  "sendMessage_onMutate perfNow vars s =
     (let previous = queryData s;
          conversationId = activeConversationId s;
          ctx = \<lparr>startTime = perfNow, ctx_conversationId = conversationId,
                 previousConversations = previous\<rparr>
      in if \<not> truthy conversationId then (ctx, s)
         else case previous of
           None \<Rightarrow> (ctx, s)
         | Some prev \<Rightarrow>
             (case findIndex (\<lambda>c. Some (conv_id c) = conversationId) prev of
                None \<Rightarrow> (ctx, s)
              | Some currentConvoIndex \<Rightarrow>
                  let convoToUpdate = prev ! currentConvoIndex;
                      isInitialState =
                        (case messages convoToUpdate of
                           [] \<Rightarrow> False | m # _ \<Rightarrow> startsWith (msg_id m) ''initial'');
                      newMessages =
                        (if isInitialState then [userMessage vars, aiMessagePlaceholder vars]
                         else messages convoToUpdate @ [userMessage vars, aiMessagePlaceholder vars]);
                      updatedItem = convoToUpdate\<lparr>messages := newMessages\<rparr>
                  in (ctx, s\<lparr>queryData :=
                               Some (updatedItem # take currentConvoIndex prev
                                       @ drop (Suc currentConvoIndex) prev)\<rparr>)))"

text \<open>
  What the service does during one generation call, as the mutation sees it: the callbacks
  it invokes, in order, and then either a result (usage metadata, and the images of an
  image generation) or a thrown value.
\<close>

datatype Callback = OnChunk Chunk | OnFileProcessing string

record Outcome =
  callbacks :: "Callback list"
  out_images :: "Image list"
  out_usage :: "UsageMetadata option"
  out_thrown :: "Thrown option"

definition thoughtChunk :: "string \<Rightarrow> Chunk" where
  \<comment> \<open>\<^verbatim>\<open>{ thought: status }\<close>\<close>
  "thoughtChunk status = emptyChunk\<lparr>chunk_thought := Some status\<rparr>"

definition deliver :: "string \<Rightarrow> App \<Rightarrow> Callback \<Rightarrow> App" where
  \<comment> \<open>the two callbacks passed to \<^verbatim>\<open>streamGeminiResponse\<close>\<close>
  "deliver streamingConversationId s cb =
     (if activeStreamingRef s = Some streamingConversationId
      then updateStreamingMessage streamingConversationId
             (case cb of OnChunk chunk \<Rightarrow> chunk | OnFileProcessing status \<Rightarrow> thoughtChunk status) s
      else s)"

definition deliverStatus :: "string \<Rightarrow> App \<Rightarrow> Callback \<Rightarrow> App" where
  \<comment> \<open>the one callback passed to \<^verbatim>\<open>generateImage\<close>, which reports statuses only\<close>
  "deliverStatus streamingConversationId s cb =
     (case cb of
        OnChunk chunk \<Rightarrow> s
      | OnFileProcessing status \<Rightarrow>
          if activeStreamingRef s = Some streamingConversationId
          then updateStreamingMessage streamingConversationId (thoughtChunk status) s
          else s)"

definition imagesText :: "nat \<Rightarrow> string" where
  "imagesText n =
     ''Generated '' @ digitsOf n @ '' image'' @ (if n > 1 then ''s'' else []) @ '' successfully.''"

definition noImagesText :: string where
  "noImagesText =
     ''Image generation completed but no images were returned. Please try again with a different prompt.''"

definition sendMessage_mutationFn ::
    "Content list \<Rightarrow> Outcome \<Rightarrow> SendVars \<Rightarrow> App
       \<Rightarrow> (Thrown + UsageMetadata option \<times> string) \<times> App" where
  \<comment> \<open>\<open>closureHistory\<close> is the value of \<^verbatim>\<open>chatHistory\<close> in the closure of the function: the
      history of the render in which the send was issued, before the optimistic insert.
      The other variables of that closure (\<^verbatim>\<open>isProSession\<close>, \<^verbatim>\<open>selectedModel\<close>,
      \<^verbatim>\<open>activeModel\<close>, \<^verbatim>\<open>aspectRatio\<close>, the identifiers in \<^verbatim>\<open>conversationsMap\<close>) are not
      changed between that render and the call, and are read from the state.\<close>
  "sendMessage_mutationFn closureHistory out vars s =
     (let txt = v_text vars; fs = v_files vars; target = targetConversationId vars in
      case conversationsMap_get (conversations s) target of
        None \<Rightarrow> (Inl (Error ''No active conversation''), s)
      | Some currentConvo \<Rightarrow>
          if activeStreamingRef s \<noteq> None \<and> activeStreamingRef s \<noteq> Some target
          then (Inl (Error ''Another conversation is currently streaming''), s)
          else
            let s1 = (if requiresProModelNow txt fs \<and> \<not> isProSession s
                      then s\<lparr>isProSession := True\<rparr> else s);
                isImageModel = (selectedModel s = FlashImage);
                tm = targetModel (isProSession s) (selectedModel s) txt fs;
                s2 = (if \<not> isImageModel \<and> activeModel s \<noteq> tm
                      then s1\<lparr>effects := effects s1 @ [Call_startNewChatSession tm closureHistory],
                             activeModel := tm\<rparr>
                      else s1)
            in if isImageModel
               then
                 let s3 = s2\<lparr>effects := effects s2 @ [Call_generateImage txt fs (aspectRatio s)]\<rparr>;
                     s4 = foldl (deliverStatus target) s3 (callbacks out)
                 in (case out_thrown out of
                       Some e \<Rightarrow> (Inl e, s4)
                     | None \<Rightarrow>
                         (Inr (out_usage out, target),
                          (if length (out_images out) > 0
                           then updateStreamingMessage target
                                  (emptyChunk\<lparr>chunk_generatedImages := Some (out_images out),
                                     chunk_text := Some (imagesText (length (out_images out)))\<rparr>) s4
                           else updateStreamingMessage target
                                  (emptyChunk\<lparr>chunk_text := Some noImagesText\<rparr>) s4)))
               else
                 let s3 = s2\<lparr>effects := effects s2 @ [Call_streamGeminiResponse txt fs]\<rparr>;
                     s4 = foldl (deliver target) s3 (callbacks out)
                 in (case out_thrown out of
                       Some e \<Rightarrow> (Inl e, s4)
                     | None \<Rightarrow> (Inr (out_usage out, target), s4)))"

definition finalize :: "UsageMetadata option \<Rightarrow> real \<Rightarrow> string \<Rightarrow> Message \<Rightarrow> Message" where
  \<comment> \<open>the callback of \<^verbatim>\<open>convo.messages.map\<close> in \<^verbatim>\<open>onSuccess\<close>\<close>
  "finalize usage elapsed stamp msg =
     (if isStreaming msg
      then msg\<lparr>usageMetadata := usage, thinkingTime := Some elapsed, timestamp := stamp\<rparr>
      else msg)"

definition sendMessage_onSuccess ::
    "real \<Rightarrow> string \<Rightarrow> StorageFault \<Rightarrow> UsageMetadata option \<times> string \<Rightarrow> MutateResult \<Rightarrow> App
       \<Rightarrow> Thrown option \<times> App" where
  \<comment> \<open>\<open>perfNow\<close> is \<^verbatim>\<open>performance.now()\<close>, \<open>stamp\<close> is \<^verbatim>\<open>getFormattedTimestamp()\<close>; the
      result is what the awaited \<^verbatim>\<open>mutateAsync\<close> throws, if it does\<close>
  "sendMessage_onSuccess perfNow stamp fault res ctx s =
     (case res of (usage, mutationConversationId) \<Rightarrow>
        if truthy (ctx_conversationId ctx) \<and> usage \<noteq> None
           \<and> Some mutationConversationId = ctx_conversationId ctx
        then
          let elapsed = perfNow - (if startTime ctx \<noteq> 0 then startTime ctx else perfNow);
              updatedConversations =
                map (\<lambda>convo. if Some (conv_id convo) = ctx_conversationId ctx
                              then convo\<lparr>messages := map (finalize usage elapsed stamp) (messages convo)\<rparr>
                              else convo)
                  (conversations s)
          in updateConversationsAsync fault updatedConversations s
        else (None, s))"

definition genericFailure :: string where
  "genericFailure = ''Sorry, I encountered an unexpected error. Please try again.''"

definition invalidKeyMessage :: string where
  "invalidKeyMessage = ''The License Key you provided is not valid. Please go to settings to update it.''"

definition errorMessageFor :: "Thrown \<Rightarrow> string" where
  "errorMessageFor e =
     (case e of
        Error message \<Rightarrow>
          if str_includes message ''API_KEY_INVALID'' \<or> str_includes message ''API key not valid''
          then invalidKeyMessage else genericFailure
      | NonError \<Rightarrow> genericFailure)"

definition failMessage :: "string \<Rightarrow> string \<Rightarrow> Message \<Rightarrow> Message" where
  \<comment> \<open>the callback of \<^verbatim>\<open>convo.messages.map\<close> in \<^verbatim>\<open>onError\<close>\<close>
  "failMessage errorMessage stamp msg =
     (if isStreaming msg
      then msg\<lparr>thoughts := Some [], msg_text := errorMessage, timestamp := stamp\<rparr>
      else msg)"

definition sendMessage_onError :: "string \<Rightarrow> StorageFault \<Rightarrow> Thrown \<Rightarrow> MutateResult \<Rightarrow> App \<Rightarrow> App" where
  "sendMessage_onError stamp fault e ctx s =
     (let s1 = (case previousConversations ctx of
                  Some previous \<Rightarrow> s\<lparr>queryData := Some previous\<rparr> | None \<Rightarrow> s);
          errorMessage = errorMessageFor e
      in if truthy (ctx_conversationId ctx)
         then
           let updatedConversations =
                 map (\<lambda>convo. if Some (conv_id convo) = ctx_conversationId ctx
                               then convo\<lparr>messages := map (failMessage errorMessage stamp) (messages convo)\<rparr>
                               else convo)
                   (conversations s1)
           in updateConversations fault updatedConversations s1
         else s1)"

definition sendMessage_onSettled :: "MutateResult \<Rightarrow> App \<Rightarrow> App" where
  "sendMessage_onSettled ctx s =
     (if truthy (ctx_conversationId ctx) \<and> activeStreamingRef s = ctx_conversationId ctx
      then s\<lparr>activeStreamingRef := None\<rparr> else s)\<lparr>isLoading := False\<rparr>"

text \<open>
  One run of the mutation, in the order the query library calls the hooks:
  \<^verbatim>\<open>onMutate\<close>, \<^verbatim>\<open>mutationFn\<close>, then \<^verbatim>\<open>onSuccess\<close> (and \<^verbatim>\<open>onError\<close> if that throws) or
  \<^verbatim>\<open>onError\<close>, then \<^verbatim>\<open>onSettled\<close>. When the handler has started an update of the title
  before the send, the \<^verbatim>\<open>onMutate\<close> of the update runs first, and its write and the hook
  that follows run between the \<^verbatim>\<open>onMutate\<close> of the send and its \<^verbatim>\<open>mutationFn\<close>.
\<close>

record SendEnv =
  perfStart :: real
  perfEnd :: real
  doneStamp :: string
  outcome :: Outcome
  saveFault :: StorageFault
  errorSaveFault :: StorageFault

definition sendMessageMutation ::
    "Content list \<Rightarrow> StorageFault \<Rightarrow> SendEnv \<Rightarrow> Started \<Rightarrow> App \<Rightarrow> App" where
  \<comment> \<open>\<open>closureHistory\<close> as in \<^verbatim>\<open>mutationFn\<close>; \<open>titleFault\<close> is the outcome of the storage write
      of the title update\<close>
  "sendMessageMutation closureHistory titleFault env started s =
     (let vars = send_vars started;
          titleMutate = (case title_update started of
                           Some updatedWithTitle \<Rightarrow> updateConversations_onMutate updatedWithTitle s
                         | None \<Rightarrow> (None, s))
      in case sendMessage_onMutate (perfStart env) vars (snd titleMutate) of (ctx, s0) \<Rightarrow>
        let s1 = (case title_update started of
                    Some updatedWithTitle \<Rightarrow>
                      updateConversations_settle titleFault updatedWithTitle (fst titleMutate) s0
                  | None \<Rightarrow> s0)
        in (case sendMessage_mutationFn closureHistory (outcome env) vars s1 of
              (Inl e, s2) \<Rightarrow>
                sendMessage_onSettled ctx (sendMessage_onError (doneStamp env) (errorSaveFault env) e ctx s2)
            | (Inr res, s2) \<Rightarrow>
                (case sendMessage_onSuccess (perfEnd env) (doneStamp env) (saveFault env) res ctx s2 of
                   (None, s3) \<Rightarrow> sendMessage_onSettled ctx s3
                 | (Some e, s3) \<Rightarrow>
                     sendMessage_onSettled ctx
                       (sendMessage_onError (doneStamp env) (errorSaveFault env) e ctx s3))))"

definition sendMessage ::
    "nat \<Rightarrow> string \<Rightarrow> StorageFault \<Rightarrow> SendEnv \<Rightarrow> string \<Rightarrow> File list \<Rightarrow> App \<Rightarrow> App" where
  \<comment> \<open>\<^verbatim>\<open>handleSendMessage\<close> and, when it starts one, the run of the send mutation, whose
      closure is the one of the render the handler ran in\<close>
  "sendMessage now stamp fault env txt fs s =
     (case handleSendMessage now stamp txt fs s of
        (s', None) \<Rightarrow> s'
      | (s', Some started) \<Rightarrow> sendMessageMutation (chatHistory s) fault env started s')"

subsection \<open>The other handlers\<close>

definition newChat ::
    "Conversation list \<Rightarrow> ModelId \<Rightarrow> nat \<Rightarrow> string \<Rightarrow> StorageFault \<Rightarrow> Message \<Rightarrow> App \<Rightarrow> App" where
  \<comment> \<open>the body of \<^verbatim>\<open>handleNewChat\<close>; the first two arguments are the values of
      \<^verbatim>\<open>conversations\<close> and \<^verbatim>\<open>selectedModel\<close> in the closure of the callback, and
      \<open>initialMessage\<close> is the constant \<^verbatim>\<open>INITIAL_MESSAGE_WITH_KEY\<close>\<close>
  "newChat closureConversations closureModel now stamp fault initialMessage s =
     (if \<not> truthy (apiKey s) then s\<lparr>showApiKeyModal := True\<rparr>
      else
        let newId = digitsOf now;
            newConversation =
              \<lparr>conv_id = newId, conv_title = ''New Chat'',
               messages = [initialMessage\<lparr>msg_id := ''initial-'' @ digitsOf now, timestamp := stamp\<rparr>],
               model = closureModel\<rparr>;
            s1 = updateConversations fault (newConversation # closureConversations) s
        in s1\<lparr>activeConversationId := Some newId, isProSession := False,
              effects := effects s1 @ [Call_startNewChatSession closureModel []],
              activeModel := closureModel\<rparr>)"

definition handleNewChat :: "nat \<Rightarrow> string \<Rightarrow> StorageFault \<Rightarrow> Message \<Rightarrow> App \<Rightarrow> App" where
  "handleNewChat now stamp fault initialMessage s =
     newChat (conversations s) (selectedModel s) now stamp fault initialMessage s"

definition handleSelectConversation :: "string \<Rightarrow> App \<Rightarrow> App" where
  "handleSelectConversation ident s =
     (case conversationsMap_get (conversations s) ident of
        None \<Rightarrow> s
      | Some conversationToSelect \<Rightarrow>
          s\<lparr>activeConversationId := Some ident,
            selectedModel := model conversationToSelect,
            effects := effects s @
              [Call_startNewChatSession (model conversationToSelect)
                 (mapMessagesToHistory (messages conversationToSelect))],
            activeModel := model conversationToSelect\<rparr>)"

definition handleModelChange ::
    "ModelId \<Rightarrow> nat \<Rightarrow> string \<Rightarrow> StorageFault \<Rightarrow> Message \<Rightarrow> App \<Rightarrow> App" where
  "handleModelChange newModel now stamp fault initialMessage s =
     (let s0 = s\<lparr>selectedModel := newModel\<rparr> in
      case conversationsMap_get (conversations s) (orEmpty (activeConversationId s)) of
        Some currentConvo \<Rightarrow>
          let updatedConversations =
                map (\<lambda>c. if Some (conv_id c) = activeConversationId s then c\<lparr>model := newModel\<rparr> else c)
                  (conversations s);
              s1 = updateConversations fault updatedConversations s0;
              isInitialPlaceholder =
                (case messages currentConvo of
                   [] \<Rightarrow> False | m # _ \<Rightarrow> startsWith (msg_id m) ''initial-'')
          in s1\<lparr>effects := effects s1 @
                   [Call_startNewChatSession newModel (if isInitialPlaceholder then [] else chatHistory s)],
                activeModel := newModel\<rparr>
      | None \<Rightarrow> newChat (conversations s) (selectedModel s) now stamp fault initialMessage s0)"

definition handleDeleteConversation ::
    "bool \<Rightarrow> string \<Rightarrow> nat \<Rightarrow> string \<Rightarrow> StorageFault \<Rightarrow> StorageFault \<Rightarrow> Message \<Rightarrow> App \<Rightarrow> App" where
  \<comment> \<open>\<open>confirmDelete\<close> is the answer to \<^verbatim>\<open>window.confirm\<close>\<close>
  "handleDeleteConversation confirmDelete ident now stamp fault fault' initialMessage s =
     (if \<not> confirmDelete then s
      else
        let updatedConversations = filter (\<lambda>c. conv_id c \<noteq> ident) (conversations s);
            s1 = updateConversations fault updatedConversations s
        in if activeConversationId s = Some ident
           then (case updatedConversations of
                   nextActiveConvo # _ \<Rightarrow>
                     s1\<lparr>activeConversationId := Some (conv_id nextActiveConvo),
                        selectedModel := model nextActiveConvo,
                        effects := effects s1 @
                          [Call_startNewChatSession (model nextActiveConvo)
                             (mapMessagesToHistory (messages nextActiveConvo))],
                        activeModel := model nextActiveConvo\<rparr>
                 | [] \<Rightarrow> newChat (conversations s) (selectedModel s) now stamp fault' initialMessage s1)
           else s1)"

text \<open>The user's actions, each with what the environment answers while it runs.\<close>

datatype Event =
    Send nat string StorageFault SendEnv string "File list"
  | NewChat nat string StorageFault Message
  | Select string
  | ModelChange ModelId nat string StorageFault Message
  | Delete bool string nat string StorageFault StorageFault Message

fun step :: "App \<Rightarrow> Event \<Rightarrow> App" where
  "step s (Send now stamp fault env txt fs) = sendMessage now stamp fault env txt fs s"
| "step s (NewChat now stamp fault initialMessage) = handleNewChat now stamp fault initialMessage s"
| "step s (Select ident) = handleSelectConversation ident s"
| "step s (ModelChange newModel now stamp fault initialMessage) =
     handleModelChange newModel now stamp fault initialMessage s"
| "step s (Delete confirmDelete ident now stamp fault fault' initialMessage) =
     handleDeleteConversation confirmDelete ident now stamp fault fault' initialMessage s"

fun startsNewChat :: "App \<Rightarrow> Event \<Rightarrow> bool" where
  \<comment> \<open>whether the handler of the event reaches the body of \<^verbatim>\<open>handleNewChat\<close>\<close>
  "startsNewChat s (Send now stamp fault env txt fs) = False"
| "startsNewChat s (NewChat now stamp fault initialMessage) = True"
| "startsNewChat s (Select ident) = False"
| "startsNewChat s (ModelChange newModel now stamp fault initialMessage) =
     (conversationsMap_get (conversations s) (orEmpty (activeConversationId s)) = None)"
| "startsNewChat s (Delete confirmDelete ident now stamp fault fault' initialMessage) =
     (confirmDelete \<and> activeConversationId s = Some ident
      \<and> filter (\<lambda>c. conv_id c \<noteq> ident) (conversations s) = [])"

fun withoutNewChat :: "App \<Rightarrow> Event list \<Rightarrow> bool" where
  "withoutNewChat s [] = True"
| "withoutNewChat s (ev # evs) = (\<not> startsNewChat s ev \<and> withoutNewChat (step s ev) evs)"

section \<open>Message input (ChatInput component)\<close>








definition onSuggestionClick :: "nat \<Rightarrow> string \<Rightarrow> string \<Rightarrow> App \<Rightarrow> App \<times> Started option" where
  \<comment> \<open>\<^verbatim>\<open>handleSendMessage(suggestion)\<close>: the parameter \<^verbatim>\<open>files\<close> takes its default\<close>
  "onSuggestionClick now stamp suggestion s = handleSendMessage now stamp suggestion [] s"



section \<open>Service module (geminiService)\<close>

text \<open>
  The module variables \<^verbatim>\<open>ai\<close>, \<^verbatim>\<open>chat\<close>, \<^verbatim>\<open>activeCache\<close> and \<^verbatim>\<open>currentModelName\<close>,
  with the requests sent to the backend and the lines written to the console, both in
  order. Whether a remote deletion throws is an argument of the function that issues it.
  A session records which of the two system instructions it carries, not its text.
\<close>

record CachedContent =
  cache_name :: "string option"

datatype Tools = MapsTools | GeneralTools

record Chat =
  chat_model :: string
  chat_tools :: Tools
  chat_cachedContent :: "string option"
  chat_systemInstruction :: "bool option"
  chat_history :: "Content list"

datatype Request = CachesDelete "string option" | ChatsCreate Chat

record Service =
  ai :: "string option"
  chat :: "Chat option"
  activeCache :: "CachedContent option"
  currentModelName :: string
  requests :: "Request list"
  console :: "string list"

definition deleteCache :: "bool \<Rightarrow> string \<Rightarrow> string \<Rightarrow> CachedContent \<Rightarrow> Service \<Rightarrow> Service" where
  \<comment> \<open>\<^verbatim>\<open>try { await ai.caches.delete(...); log } catch { log } finally { activeCache = null }\<close>,
      with the two console lines of the call site (the second may be empty: no line)\<close>
  "deleteCache deleteThrows okLine failLine cache svc =
     (let s1 = svc\<lparr>requests := requests svc @ [CachesDelete (cache_name cache)]\<rparr>;
          s2 = (if deleteThrows then s1\<lparr>console := console s1 @ [failLine]\<rparr>
                else if okLine = [] then s1 else s1\<lparr>console := console s1 @ [okLine]\<rparr>)
      in s2\<lparr>activeCache := None\<rparr>)"

definition cleanupActiveCache :: "bool \<Rightarrow> Service \<Rightarrow> Service" where
  "cleanupActiveCache deleteThrows svc =
     (case ai svc of
        None \<Rightarrow> svc
      | Some client \<Rightarrow>
          (case activeCache svc of
             None \<Rightarrow> svc
           | Some cache \<Rightarrow>
               deleteCache deleteThrows ''Cache cleaned up successfully'' ''Failed to cleanup cache:'' cache svc))"

definition startNewChatSession ::
    "bool \<Rightarrow> string \<Rightarrow> string option \<Rightarrow> Content list \<Rightarrow> Service \<Rightarrow> Service" where
  "startNewChatSession deleteThrows modelNm cachedContentName history svc =
     (case ai svc of
        None \<Rightarrow>
          svc\<lparr>console := console svc @ [''AI client not initialized. Please set the API key first.'']\<rparr>
      | Some client \<Rightarrow>
          let s1 = svc\<lparr>currentModelName := modelNm\<rparr>;
              isMapsModel = str_includes modelNm ''-maps'';
              actualModelName = (if isMapsModel then ''gemini-2.5-flash-lite'' else modelNm);
              s2 = (case activeCache s1 of
                      Some cache \<Rightarrow>
                        if \<not> truthy cachedContentName
                        then deleteCache deleteThrows ''Old cache deleted successfully''
                               ''Failed to delete old cache'' cache s1
                        else s1
                    | None \<Rightarrow> s1);
              session =
                \<lparr>chat_model = actualModelName,
                 chat_tools = (if isMapsModel then MapsTools else GeneralTools),
                 chat_cachedContent = (if truthy cachedContentName then cachedContentName else None),
                 chat_systemInstruction =
                   (if truthy cachedContentName then None
                    else if length history = 0 then Some isMapsModel else None),
                 chat_history = history\<rparr>
          in s2\<lparr>chat := Some session, requests := requests s2 @ [ChatsCreate session]\<rparr>)"

definition streamGeminiResponse_deleteOldCache :: "bool \<Rightarrow> Service \<Rightarrow> Service" where
  \<comment> \<open>\<^verbatim>\<open>if (activeCache) { try ... catch ... finally { activeCache = null } }\<close> in the
      branch of \<^verbatim>\<open>streamGeminiResponse\<close> for one large PDF\<close>
  "streamGeminiResponse_deleteOldCache deleteThrows svc =
     (case activeCache svc of
        Some old \<Rightarrow> deleteCache deleteThrows [] ''Failed to delete old cache'' old svc
      | None \<Rightarrow> svc)"

definition streamGeminiResponse_replaceCache :: "bool \<Rightarrow> CachedContent \<Rightarrow> Service \<Rightarrow> Service" where
  \<comment> \<open>the same block followed by \<^verbatim>\<open>activeCache = cache\<close>, for the cache just created\<close>
  "streamGeminiResponse_replaceCache deleteThrows cache svc =
     (streamGeminiResponse_deleteOldCache deleteThrows svc)\<lparr>activeCache := Some cache\<rparr>"

definition streamGeminiResponse_cachedSession ::
    "bool \<Rightarrow> bool \<Rightarrow> CachedContent \<Rightarrow> Service \<Rightarrow> Service" where
  \<comment> \<open>from the creation of the cache to the new session:
      \<^verbatim>\<open>await startNewChatSession(currentModelName, cache.name)\<close>\<close>
  "streamGeminiResponse_cachedSession deleteThrows deleteThrows' cache svc =
     (let s1 = streamGeminiResponse_replaceCache deleteThrows cache svc
      in startNewChatSession deleteThrows' (currentModelName s1) (cache_name cache) [] s1)"

definition deletions :: "Service \<Rightarrow> string option list" where
  \<comment> \<open>the names passed to \<^verbatim>\<open>ai.caches.delete\<close> so far\<close>
  "deletions svc = concat (map (\<lambda>r. case r of CachesDelete n \<Rightarrow> [n] | ChatsCreate c \<Rightarrow> []) (requests svc))"

subsection \<open>The chunks of a stream\<close>

record InlineData =
  inline_data :: "string option"
  inline_mimeType :: "string option"

record Part =
  part_text :: "string option"
  part_thought :: bool
  part_executableCode :: "string option option"
  part_codeExecutionResult :: "string option option"
  part_inlineData :: "InlineData option"

record UrlMetadata =
  retrievedUrl :: "string option"

record MapsChunk =
  maps_uri :: "string option"
  maps_title :: "string option"
  maps_placeId :: "string option"

record WebChunk =
  web_uri :: "string option"
  web_title :: "string option"

record GroundingChunk =
  maps :: "MapsChunk option"
  web :: "WebChunk option"

record ApiChunk =
  api_usageMetadata :: "UsageMetadata option"
  api_parts :: "Part list option"
  api_urlMetadata :: "UrlMetadata list option"
  api_groundingChunks :: "GroundingChunk list option"

definition partChunks :: "Part \<Rightarrow> Chunk list" where
  \<comment> \<open>the calls of \<^verbatim>\<open>onChunk\<close> for one part, in the first loop\<close>
  "partChunks part =
     (if part_thought part then [emptyChunk\<lparr>chunk_thought := part_text part\<rparr>] else [])
     @ (case part_executableCode part of
          Some code \<Rightarrow> if truthy code then [emptyChunk\<lparr>chunk_executableCode := code\<rparr>] else []
        | None \<Rightarrow> [])
     @ (case part_codeExecutionResult part of
          Some output \<Rightarrow> if truthy output then [emptyChunk\<lparr>chunk_codeExecutionResult := output\<rparr>] else []
        | None \<Rightarrow> [])"

definition partImages :: "Part \<Rightarrow> Image list" where
  "partImages part =
     (case part_inlineData part of
        Some d \<Rightarrow>
          (case inline_mimeType d of
             Some mt \<Rightarrow>
               if startsWith mt ''image/'' then [\<lparr>base64 = orEmpty (inline_data d), mimeType = mt\<rparr>] else []
           | None \<Rightarrow> [])
      | None \<Rightarrow> [])"

definition isTextPart :: "Part \<Rightarrow> bool" where
  \<comment> \<open>\<^verbatim>\<open>part.text && !part.thought && !part.executableCode && !part.codeExecutionResult\<close>\<close>
  "isTextPart part =
     (truthy (part_text part) \<and> \<not> part_thought part \<and> part_executableCode part = None
      \<and> part_codeExecutionResult part = None)"

fun splitSlashes :: "string \<Rightarrow> string \<Rightarrow> string list" where
  \<comment> \<open>\<^verbatim>\<open>s.split('//')\<close>, with the piece read so far (reversed) as first argument\<close>
  "splitSlashes acc (a # b # rest) =
     (if a = CHR ''/'' \<and> b = CHR ''/'' then rev acc # splitSlashes [] rest
      else splitSlashes (a # acc) (b # rest))"
| "splitSlashes acc [a] = [rev (a # acc)]"
| "splitSlashes acc [] = [rev acc]"

definition urlTitle :: "string \<Rightarrow> string" where
  \<comment> \<open>\<^verbatim>\<open>url.split('//').pop() || url\<close>\<close>
  "urlTitle url = (let t = last (splitSlashes [] url) in if t \<noteq> [] then t else url)"

definition pushSource :: "Source list \<Rightarrow> Source \<Rightarrow> Source list" where
  \<comment> \<open>\<^verbatim>\<open>if (!sources.some(s => s.uri === x.uri)) sources.push(x)\<close>\<close>
  "pushSource srcs x = (if \<not> list_ex (\<lambda>s. uri s = uri x) srcs then srcs @ [x] else srcs)"

definition addUrlMetadata :: "Source list \<Rightarrow> UrlMetadata \<Rightarrow> Source list" where
  "addUrlMetadata srcs meta =
     (if truthy (retrievedUrl meta)
      then pushSource srcs
             \<lparr>uri = orEmpty (retrievedUrl meta), src_title = urlTitle (orEmpty (retrievedUrl meta)),
              placeId = None\<rparr>
      else srcs)"

definition addGroundingChunk :: "Source list \<Rightarrow> GroundingChunk \<Rightarrow> Source list" where
  "addGroundingChunk srcs groundChunk =
     (if (case maps groundChunk of Some m \<Rightarrow> truthy (maps_uri m) \<and> truthy (maps_title m) | None \<Rightarrow> False)
      then (case maps groundChunk of
              Some m \<Rightarrow>
                pushSource srcs
                  \<lparr>uri = orEmpty (maps_uri m), src_title = orEmpty (maps_title m), placeId = maps_placeId m\<rparr>
            | None \<Rightarrow> srcs)
      else if (case web groundChunk of Some w \<Rightarrow> truthy (web_uri w) \<and> truthy (web_title w) | None \<Rightarrow> False)
      then (case web groundChunk of
              Some w \<Rightarrow>
                pushSource srcs
                  \<lparr>uri = orEmpty (web_uri w), src_title = orEmpty (web_title w), placeId = None\<rparr>
            | None \<Rightarrow> srcs)
      else srcs)"

definition chunkSources :: "ApiChunk \<Rightarrow> Source list" where
  \<comment> \<open>the array \<^verbatim>\<open>sources\<close> at the end of one iteration\<close>
  "chunkSources chunk =
     (let s1 = foldl addUrlMetadata [] (case api_urlMetadata chunk of Some ms \<Rightarrow> ms | None \<Rightarrow> [])
      in foldl addGroundingChunk s1 (case api_groundingChunks chunk of Some gs \<Rightarrow> gs | None \<Rightarrow> []))"

definition streamGeminiResponse_chunk :: "ApiChunk \<Rightarrow> Chunk list" where
  \<comment> \<open>the calls of \<^verbatim>\<open>onChunk\<close> made by one iteration of \<^verbatim>\<open>for await (const chunk of stream)\<close>\<close>
  "streamGeminiResponse_chunk chunk =
     (let ps = (case api_parts chunk of Some ps \<Rightarrow> ps | None \<Rightarrow> []);
          codeExecutionImages = concat (map partImages ps);
          textParts = filter isTextPart ps;
          textContent = concat (map (\<lambda>p. orEmpty (part_text p)) textParts);
          srcs = chunkSources chunk
      in concat (map partChunks ps)
         @ (if length codeExecutionImages > 0
            then [emptyChunk\<lparr>chunk_codeExecutionImages := Some codeExecutionImages\<rparr>] else [])
         @ (if api_parts chunk \<noteq> None \<and> length textParts > 0 \<and> textContent \<noteq> []
            then [emptyChunk\<lparr>chunk_text := Some textContent\<rparr>] else [])
         @ (if length srcs > 0 then [emptyChunk\<lparr>chunk_sources := Some srcs\<rparr>] else []))"

definition streamGeminiResponse_stream :: "ApiChunk list \<Rightarrow> Chunk list \<times> UsageMetadata option" where
  \<comment> \<open>the whole loop: every call of \<^verbatim>\<open>onChunk\<close>, and \<^verbatim>\<open>finalUsageMetadata\<close>\<close>
  "streamGeminiResponse_stream stream =
     (concat (map streamGeminiResponse_chunk stream),
      foldl (\<lambda>final chunk. case api_usageMetadata chunk of Some u \<Rightarrow> Some u | None \<Rightarrow> final) None stream)"

definition foldChunks :: "Chunk list \<Rightarrow> Message \<Rightarrow> Message" where
  \<comment> \<open>what a sequence of calls of \<^verbatim>\<open>updateStreamingMessage\<close> does to one message\<close>
  "foldChunks chunks msg = foldl (\<lambda>m chunk. patchMessage chunk m) msg chunks"

section \<open>Notions used in the properties\<close>






subsection \<open>Sample values\<close>

definition photo :: File where
  "photo = \<lparr>file_name = ''photo.png'', file_size = 2048, file_type = ''image/png''\<rparr>"


definition chatA :: Conversation where
  "chatA = \<lparr>conv_id = ''100'', conv_title = ''First'', messages = [], model = Flash\<rparr>"

definition chatB :: Conversation where
  "chatB = \<lparr>conv_id = ''200'', conv_title = ''Second'', messages = [], model = Flash\<rparr>"

definition readyApp :: App where
  \<comment> \<open>a key is set, two conversations are loaded, the first is active, nothing streams\<close>
  "readyApp =
     \<lparr>queryData = Some [chatA, chatB], localStorage = None, activeConversationId = Some ''100'',
      isLoading = False, selectedModel = Flash, activeModel = Flash, isProSession = False,
      aspectRatio = ''16:9'', apiKey = Some ''key'', showApiKeyModal = False, fileErrors = [],
      storageError = None, activeStreamingRef = None, effects = []\<rparr>"

definition busyApp :: App where
  \<comment> \<open>as \<open>readyApp\<close>, while the second conversation streams\<close>
  "busyApp = readyApp\<lparr>activeStreamingRef := Some ''200'', isLoading := True\<rparr>"

definition sampleVars :: SendVars where
  "sampleVars =
     \<lparr>v_text = ''hi'', v_files = [], userMessage = newUserMessage 1 ''now'' ''hi'' [],
      aiMessagePlaceholder = newPlaceholder 1, targetConversationId = ''100''\<rparr>"

definition quietOutcome :: Outcome where
  "quietOutcome = \<lparr>callbacks = [], out_images = [], out_usage = None, out_thrown = None\<rparr>"

definition streamingIn :: "string \<Rightarrow> App \<Rightarrow> Message list" where
  \<comment> \<open>the messages of a conversation sent by the assistant whose timestamp is empty\<close>
  "streamingIn ident s =
     concat (map (\<lambda>c. filter (\<lambda>m. sender m = Ai \<and> timestamp m = []) (messages c))
                (filter (\<lambda>c. conv_id c = ident) (conversations s)))"

definition allMessages :: "App \<Rightarrow> Message list" where
  "allMessages s = concat (map messages (conversations s))"

definition unmeteredOutcome :: Outcome where
  \<comment> \<open>a stream that delivers one text chunk and ends without usage metadata\<close>
  "unmeteredOutcome =
     \<lparr>callbacks = [OnChunk (emptyChunk\<lparr>chunk_text := Some ''Hello''\<rparr>)], out_images = [],
      out_usage = None, out_thrown = None\<rparr>"

definition unmeteredEnv :: SendEnv where
  "unmeteredEnv =
     \<lparr>perfStart = 5, perfEnd = 9, doneStamp = ''Mon 10:00'', outcome = unmeteredOutcome,
      saveFault = NoFault, errorSaveFault = NoFault\<rparr>"

definition afterFirstSend :: App where
  \<comment> \<open>the first send has run to its end\<close>
  "afterFirstSend = sendMessage 1 ''Mon 09:59'' NoFault unmeteredEnv ''hi'' [] readyApp"

definition duringSecondSend :: App where
  \<comment> \<open>the second send has been accepted and its \<^verbatim>\<open>onMutate\<close> has run\<close>
  "duringSecondSend =
     (case handleSendMessage 2 ''Mon 10:01'' ''again'' [] afterFirstSend of
        (s, Some started) \<Rightarrow> snd (sendMessage_onMutate 7 (send_vars started) s)
      | (s, None) \<Rightarrow> s)"

definition rejectedKeyOutcome :: Outcome where
  \<comment> \<open>a stream that delivers one text chunk and then fails on the credential\<close>
  "rejectedKeyOutcome =
     \<lparr>callbacks = [OnChunk (emptyChunk\<lparr>chunk_text := Some ''Hel''\<rparr>)], out_images = [],
      out_usage = None,
      out_thrown = Some (Error ''[400] API key not valid. Please pass a valid API key.'')\<rparr>"

definition rejectedKeyEnv :: SendEnv where
  "rejectedKeyEnv =
     \<lparr>perfStart = 5, perfEnd = 9, doneStamp = ''Mon 10:00'', outcome = rejectedKeyOutcome,
      saveFault = NoFault, errorSaveFault = NoFault\<rparr>"

definition afterFailedSend :: App where
  "afterFailedSend = sendMessage 1 ''Mon 09:59'' NoFault rejectedKeyEnv ''hi'' [] readyApp"

subsection \<open>Chunks and citations\<close>

definition senderTagged :: "Message \<Rightarrow> bool" where
  \<comment> \<open>the identifier carries the tag of the sender: only a message of the assistant has an
      identifier that ends with \<^verbatim>\<open>-ai\<close>\<close>
  "senderTagged m = (endsWith (msg_id m) ''-ai'' \<longrightarrow> sender m = Ai)"


definition plainText :: "ApiChunk \<Rightarrow> string" where
  \<comment> \<open>the text of the parts of a chunk that are neither reasoning, code nor code output\<close>
  "plainText ch =
     concat (map (\<lambda>p. orEmpty (part_text p))
       (filter isTextPart (case api_parts ch of Some ps \<Rightarrow> ps | None \<Rightarrow> [])))"

definition thoughtText :: "ApiChunk \<Rightarrow> string" where
  \<comment> \<open>the text of the reasoning parts of a chunk\<close>
  "thoughtText ch =
     concat (map (\<lambda>p. orEmpty (part_text p))
       (filter part_thought (case api_parts ch of Some ps \<Rightarrow> ps | None \<Rightarrow> [])))"






definition textChunk :: "string \<Rightarrow> Chunk" where
  \<comment> \<open>\<^verbatim>\<open>{ text: t }\<close>\<close>
  "textChunk t = emptyChunk\<lparr>chunk_text := Some t\<rparr>"

definition helloChunks :: "Chunk list" where
  "helloChunks = [textChunk ''Hel'', textChunk ''lo'', thoughtChunk ''thinking'', textChunk ''!'']"

definition blankPart :: Part where
  "blankPart = \<lparr>part_text = None, part_thought = False, part_executableCode = None,
     part_codeExecutionResult = None, part_inlineData = None\<rparr>"

definition partsChunk :: "Part list \<Rightarrow> ApiChunk" where
  "partsChunk ps = \<lparr>api_usageMetadata = None, api_parts = Some ps, api_urlMetadata = None,
     api_groundingChunks = None\<rparr>"

definition helloStream :: "ApiChunk list" where
  \<comment> \<open>the same fragments as they come from the backend, between a code part and a code
      output part\<close>
  "helloStream =
     [partsChunk [blankPart\<lparr>part_text := Some ''Hel''\<rparr>],
      partsChunk [blankPart\<lparr>part_text := Some ''lo''\<rparr>,
                  blankPart\<lparr>part_text := Some ''print(1)'', part_executableCode := Some (Some ''print(1)'')\<rparr>],
      partsChunk [blankPart\<lparr>part_text := Some ''thinking'', part_thought := True\<rparr>,
                  blankPart\<lparr>part_text := Some ''1'', part_codeExecutionResult := Some (Some ''1'')\<rparr>],
      partsChunk [blankPart\<lparr>part_text := Some ''!''\<rparr>]]"

definition someUsage :: UsageMetadata where
  "someUsage = \<lparr>promptTokenCount = Some 3, candidatesTokenCount = Some 2, totalTokenCount = Some 5,
     thoughtsTokenCount = None, cachedContentTokenCount = None, toolUsePromptTokenCount = None,
     promptTokensDetails = None, toolUsePromptTokensDetails = None\<rparr>"

definition helloEnv :: SendEnv where
  "helloEnv =
     \<lparr>perfStart = 5, perfEnd = 9, doneStamp = ''Mon 10:00'',
      outcome = \<lparr>callbacks = map OnChunk helloChunks, out_images = [], out_usage = Some someUsage,
                  out_thrown = None\<rparr>,
      saveFault = NoFault, errorSaveFault = NoFault\<rparr>"

definition afterHelloSend :: App where
  \<comment> \<open>a send whose stream delivers the four chunks and reports its usage\<close>
  "afterHelloSend = sendMessage 1 ''Mon 09:59'' NoFault helloEnv ''hi'' [] readyApp"



subsection \<open>Sample values for the store and the cache\<close>

definition picture :: Image where
  "picture = \<lparr>base64 = ''iVBORw0KGgo='', mimeType = ''image/png''\<rparr>"

definition galleryChat :: Conversation where
  \<comment> \<open>a conversation whose last message carries a generated image\<close>
  "galleryChat =
     \<lparr>conv_id = ''300'', conv_title = ''Pictures'',
      messages =
        [newUserMessage 3 ''Mon 11:00'' ''a cat'' [],
         (newPlaceholder 3)\<lparr>msg_text := imagesText 1, timestamp := ''Mon 11:01'',
            generatedImages := Some [picture], thinkingTime := Some 1200\<rparr>],
      model = FlashImage\<rparr>"

definition oldCache :: CachedContent where
  "oldCache = \<lparr>cache_name = Some ''cachedContents/old''\<rparr>"

definition newCache :: CachedContent where
  "newCache = \<lparr>cache_name = Some ''cachedContents/new''\<rparr>"

definition cachedService :: Service where
  \<comment> \<open>the client is initialized and a cache is active\<close>
  "cachedService =
     \<lparr>ai = Some ''key'', chat = None, activeCache = Some oldCache,
      currentModelName = ''gemini-2.5-pro'', requests = [], console = []\<rparr>"

subsection \<open>Sample values for the escalation\<close>

definition modelState :: "App \<Rightarrow> bool \<times> ModelId \<times> ModelId" where
  \<comment> \<open>the escalation flag, the model selected and the model of the session\<close>
  "modelState s = (isProSession s, selectedModel s, activeModel s)"

definition greeting :: Message where
  "greeting = blankMessage\<lparr>sender := Ai, msg_text := ''Hello!''\<rparr>"

definition sendPhoto :: Event where
  "sendPhoto = Send 7 ''Mon 09:59'' NoFault helloEnv ''look at this'' [photo]"

definition sendText :: Event where
  "sendText = Send 8 ''Mon 10:10'' NoFault helloEnv ''and then?'' []"

definition escalatedApp :: App where
  \<comment> \<open>the first conversation after a send with a picture attached\<close>
  "escalatedApp = step readyApp sendPhoto"

definition returnedApp :: App where
  \<comment> \<open>then a new chat is started and the first conversation is selected again\<close>
  "returnedApp = foldl step readyApp [sendPhoto, NewChat 300 ''Mon 10:05'' NoFault greeting, Select ''100'']"

section \<open>Verified properties\<close>

subsection \<open>File validation\<close>






























subsection \<open>The guard against a second stream\<close>

lemma conversations_fileErrors [simp]: "conversations (s\<lparr>fileErrors := e\<rparr>) = conversations s"
  by (simp add: conversations_def)

lemma handleSendMessage_while_other_streams:
  assumes "activeStreamingRef s = Some a" and "activeConversationId s = Some b" and "a \<noteq> b"
  shows "\<exists>e. handleSendMessage now stamp txt fs s = (s\<lparr>fileErrors := e\<rparr>, None)
           \<or> handleSendMessage now stamp txt fs s = (s\<lparr>showApiKeyModal := True\<rparr>, None)"
  using assms by (auto simp: handleSendMessage_def Let_def split: option.splits)

lemma handleSendMessage_please_wait:
  assumes "activeStreamingRef s = Some a" and "activeConversationId s = Some b" and "a \<noteq> b"
    and "truthy (apiKey s)" and "errors (validateFiles fs) = []" and "b \<noteq> []"
    and "conversationsMap_get (conversations s) b \<noteq> None"
  shows "handleSendMessage now stamp txt fs s = (s\<lparr>fileErrors := [pleaseWait]\<rparr>, None)"
  using assms by (auto simp: handleSendMessage_def Let_def orEmpty_def split: option.splits)

lemma mutationFn_while_other_streams:
  assumes "activeStreamingRef s = Some a" and "targetConversationId vars = b" and "a \<noteq> b"
  shows "\<exists>e. sendMessage_mutationFn h out vars s = (Inl e, s)"
  using assms by (auto simp: sendMessage_mutationFn_def Let_def split: option.splits)

lemma busyApp_facts:
  "activeStreamingRef busyApp = Some ''200''" "activeConversationId busyApp = Some ''100''"
  "truthy (apiKey busyApp)" "conversations busyApp = [chatA, chatB]"
  by (simp_all add: busyApp_def readyApp_def truthy_def conversations_def)

lemma lookup_chatA: "conversationsMap_get [chatA, chatB] ''100'' = Some chatA"
  by (simp add: conversationsMap_get_def chatA_def chatB_def)

text \<open>
  C2. While the streaming token is held by conversation \<open>a\<close> and the active conversation
  is another one, \<open>b\<close>, \<^verbatim>\<open>handleSendMessage\<close> returns at once: it starts no mutation,
  makes no call to the service, and leaves the repository and the storage slot as they
  were. When a key is set, the files pass validation and \<open>b\<close> is in the repository, what
  it sets is the "please wait" message. The send mutation has the same guard: run for
  \<open>b\<close> in such a state, \<^verbatim>\<open>mutationFn\<close> throws before any call and changes nothing.
\<close>

theorem concurrent_send_rejected:
  assumes "activeStreamingRef s = Some a" and "activeConversationId s = Some b" and "a \<noteq> b"
  shows "snd (handleSendMessage now stamp txt fs s) = None
     \<and> effects (fst (handleSendMessage now stamp txt fs s)) = effects s
     \<and> queryData (fst (handleSendMessage now stamp txt fs s)) = queryData s
     \<and> localStorage (fst (handleSendMessage now stamp txt fs s)) = localStorage s
     \<and> (truthy (apiKey s) \<and> errors (validateFiles fs) = [] \<and> b \<noteq> []
          \<and> conversationsMap_get (conversations s) b \<noteq> None
        \<longrightarrow> handleSendMessage now stamp txt fs s = (s\<lparr>fileErrors := [pleaseWait]\<rparr>, None))
     \<and> (targetConversationId vars = b \<longrightarrow> (\<exists>e. sendMessage_mutationFn h out vars s = (Inl e, s)))"
proof -
  obtain e where "handleSendMessage now stamp txt fs s = (s\<lparr>fileErrors := e\<rparr>, None)
      \<or> handleSendMessage now stamp txt fs s = (s\<lparr>showApiKeyModal := True\<rparr>, None)"
    using handleSendMessage_while_other_streams [OF assms] by blast
  then have "snd (handleSendMessage now stamp txt fs s) = None
     \<and> effects (fst (handleSendMessage now stamp txt fs s)) = effects s
     \<and> queryData (fst (handleSendMessage now stamp txt fs s)) = queryData s
     \<and> localStorage (fst (handleSendMessage now stamp txt fs s)) = localStorage s"
    by auto
  moreover have "truthy (apiKey s) \<and> errors (validateFiles fs) = [] \<and> b \<noteq> []
          \<and> conversationsMap_get (conversations s) b \<noteq> None
        \<longrightarrow> handleSendMessage now stamp txt fs s = (s\<lparr>fileErrors := [pleaseWait]\<rparr>, None)"
    using handleSendMessage_please_wait [OF assms] by blast
  moreover have "targetConversationId vars = b \<longrightarrow> (\<exists>e. sendMessage_mutationFn h out vars s = (Inl e, s))"
    using mutationFn_while_other_streams [OF assms(1) _ assms(3)] by blast
  ultimately show ?thesis by blast
qed

theorem concurrent_send_rejected_witness:
  "activeStreamingRef busyApp = Some ''200'' \<and> activeConversationId busyApp = Some ''100''
   \<and> handleSendMessage 1 ''now'' ''hi'' [] busyApp = (busyApp\<lparr>fileErrors := [pleaseWait]\<rparr>, None)
   \<and> (\<exists>e. sendMessage_mutationFn [] quietOutcome sampleVars busyApp = (Inl e, busyApp))"
  using concurrent_send_rejected
    [of busyApp "''200''" "''100''" 1 "''now''" "''hi''" "[]" sampleVars "[]" quietOutcome]
  by (simp add: busyApp_facts lookup_chatA validateFiles_def sampleVars_def)

subsection \<open>The streaming placeholder across sends\<close>

text \<open>
  C1 fails on the code. \<^verbatim>\<open>onSuccess\<close> sets the timestamp of the placeholder only when
  the result carries usage metadata, while \<^verbatim>\<open>onError\<close> sets it in every case. A first
  send whose stream ends without usage metadata leaves its placeholder with an empty
  timestamp; once the second send has inserted its own, the conversation holds two
  messages of the assistant with an empty timestamp.
\<close>

theorem two_placeholders_after_unmetered_send:
  "map msg_id (streamingIn ''100'' afterFirstSend) = [''1-ai'']
   \<and> activeStreamingRef afterFirstSend = None
   \<and> map msg_id (streamingIn ''100'' duringSecondSend) = [''1-ai'', ''2-ai'']"
  by code_simp

subsection \<open>A generation that fails\<close>

lemma map_failMessage_id:
  "\<forall>m \<in> set ms. \<not> isStreaming m \<Longrightarrow> map (failMessage e stamp) ms = ms"
  by (induction ms) (auto simp: failMessage_def)

lemma failed_rewrite_id:
  assumes "\<forall>c \<in> set cs. \<forall>m \<in> set (messages c). \<not> isStreaming m"
  shows "map (\<lambda>convo. if Some (conv_id convo) = k
                      then convo\<lparr>messages := map (failMessage e stamp) (messages convo)\<rparr>
                      else convo) cs = cs"
  using assms by (induction cs) (auto simp: map_failMessage_id)

lemma updateConversations_same:
  "queryData s = Some cs \<Longrightarrow> queryData (updateConversations fault cs s) = Some cs"
  by (cases fault; cases "cs = []")
    (simp_all add: updateConversations_def updateConversationsAsync_def saveConversations_def Let_def)

lemma onMutate_snapshot:
  "previousConversations (fst (sendMessage_onMutate perfNow vars s)) = queryData s"
  by (simp add: sendMessage_onMutate_def Let_def split: option.splits)

text \<open>
  Whatever the chunks did in between: when the snapshot taken by \<^verbatim>\<open>onMutate\<close> holds no
  message that is still streaming, \<^verbatim>\<open>onError\<close> leaves the repository equal to that
  snapshot, in which the placeholder of this send does not exist.
\<close>

lemma onError_restores_snapshot:
  assumes "previousConversations ctx = Some cs"
    and "\<forall>c \<in> set cs. \<forall>m \<in> set (messages c). \<not> isStreaming m"
  shows "queryData (sendMessage_onError stamp fault e ctx s) = Some cs"
  using assms
  by (simp add: sendMessage_onError_def Let_def conversations_def failed_rewrite_id
      updateConversations_same)

text \<open>
  C3 fails on the code. The send is accepted, a chunk arrives, and the generation throws an
  error with the signature of a rejected credential. \<^verbatim>\<open>onError\<close> first puts the
  snapshot back, which removes the placeholder, and only then looks for a streaming message
  to write the error into: it finds none. The repository ends equal to the snapshot taken
  before the send and is stored so; the message chosen for the credential is in no
  conversation.
\<close>

theorem failed_send_leaves_no_error_message:
  "errorMessageFor (Error ''[400] API key not valid. Please pass a valid API key.'') = invalidKeyMessage
   \<and> queryData afterFailedSend = queryData readyApp
   \<and> localStorage afterFailedSend = Some (ConvArray (map toStored [chatA, chatB]))
   \<and> filter (\<lambda>m. msg_text m = invalidKeyMessage) (allMessages afterFailedSend) = []
   \<and> streamingIn ''100'' afterFailedSend = []"
  by code_simp

subsection \<open>Folding a stream into the placeholder\<close>

lemma newPlaceholder_streaming: "isStreaming (newPlaceholder now)"
  by (simp add: isStreaming_def newPlaceholder_def blankMessage_def endsWith_def suffix_def)

lemma applyChunk_keeps:
  "msg_id (applyChunk c m) = msg_id m" "timestamp (applyChunk c m) = timestamp m"
  "sender (applyChunk c m) = sender m"
  by (simp_all add: applyChunk_def Let_def split: option.splits)

lemma applyChunk_streaming: "isStreaming (applyChunk c m) = isStreaming m"
  by (simp add: isStreaming_def applyChunk_keeps)

lemma applyChunk_text:
  "msg_text (applyChunk c m) = msg_text m @ orEmpty (chunk_text c)"
  by (simp add: applyChunk_def Let_def truthy_def orEmpty_def split: option.splits)

lemma applyChunk_thoughts:
  "orEmpty (thoughts (applyChunk c m)) = orEmpty (thoughts m) @ orEmpty (chunk_thought c)"
  by (simp add: applyChunk_def Let_def truthy_def orEmpty_def split: option.splits)


lemma foldChunks_Nil [simp]: "foldChunks [] m = m"
  by (simp add: foldChunks_def)

lemma foldChunks_Cons [simp]: "foldChunks (c # cs) m = foldChunks cs (patchMessage c m)"
  by (simp add: foldChunks_def)


lemma patchMessage_streaming: "isStreaming m \<Longrightarrow> patchMessage c m = applyChunk c m"
  by (simp add: patchMessage_def)

lemma foldChunks_streaming: "isStreaming m \<Longrightarrow> isStreaming (foldChunks cs m)"
  by (induction cs arbitrary: m) (simp_all add: patchMessage_streaming applyChunk_streaming)

lemma foldChunks_text:
  "isStreaming m \<Longrightarrow>
   msg_text (foldChunks cs m) = msg_text m @ concat (map (\<lambda>c. orEmpty (chunk_text c)) cs)"
  by (induction cs arbitrary: m)
    (simp_all add: patchMessage_streaming applyChunk_streaming applyChunk_text)

lemma foldChunks_thoughts:
  "isStreaming m \<Longrightarrow>
   orEmpty (thoughts (foldChunks cs m)) = orEmpty (thoughts m) @ concat (map (\<lambda>c. orEmpty (chunk_thought c)) cs)"
  by (induction cs arbitrary: m)
    (simp_all add: patchMessage_streaming applyChunk_streaming applyChunk_thoughts)

lemma orEmpty_simps [simp]: "orEmpty None = []" "orEmpty (Some x) = x"
  by (simp_all add: orEmpty_def)

lemma emptyChunk_fields [simp]:
  "chunk_text emptyChunk = None" "chunk_thought emptyChunk = None" "chunk_sources emptyChunk = None"
  by (simp_all add: emptyChunk_def)

lemma partChunks_text: "concat (map (\<lambda>c. orEmpty (chunk_text c)) (partChunks p)) = []"
  by (auto simp: partChunks_def split: option.splits)

lemma partChunks_thought:
  "concat (map (\<lambda>c. orEmpty (chunk_thought c)) (partChunks p)) = (if part_thought p then orEmpty (part_text p) else [])"
  by (auto simp: partChunks_def split: option.splits)

lemma concat_partChunks_text:
  "concat (map (\<lambda>c. orEmpty (chunk_text c)) (concat (map partChunks ps))) = []"
  by (induction ps) (simp_all add: partChunks_text)

lemma concat_partChunks_thought:
  "concat (map (\<lambda>c. orEmpty (chunk_thought c)) (concat (map partChunks ps)))
     = concat (map (\<lambda>p. orEmpty (part_text p)) (filter part_thought ps))"
  by (induction ps) (simp_all add: partChunks_thought)

lemma chunk_text_of_call:
  "concat (map (\<lambda>c. orEmpty (chunk_text c)) (streamGeminiResponse_chunk ch)) = plainText ch"
proof (cases "api_parts ch")
  case None
  then show ?thesis
    by (simp add: streamGeminiResponse_chunk_def Let_def plainText_def)
next
  case (Some ps)
  show ?thesis
  proof (cases "concat (map (\<lambda>p. orEmpty (part_text p)) (filter isTextPart ps)) = []")
    case True
    with Some show ?thesis
      by (simp add: streamGeminiResponse_chunk_def Let_def plainText_def concat_partChunks_text
          del: concat_eq_Nil_conv Nil_eq_concat_conv)
  next
    case False
    then have "filter isTextPart ps \<noteq> []"
      by (cases "filter isTextPart ps") simp_all
    with Some False show ?thesis
      by (simp add: streamGeminiResponse_chunk_def Let_def plainText_def concat_partChunks_text
          del: concat_eq_Nil_conv Nil_eq_concat_conv)
  qed
qed

lemma chunk_thought_of_call:
  "concat (map (\<lambda>c. orEmpty (chunk_thought c)) (streamGeminiResponse_chunk ch)) = thoughtText ch"
  by (cases "api_parts ch")
    (simp_all add: streamGeminiResponse_chunk_def Let_def thoughtText_def concat_partChunks_thought)

lemma stream_text:
  "concat (map (\<lambda>c. orEmpty (chunk_text c)) (fst (streamGeminiResponse_stream stream)))
     = concat (map plainText stream)"
  by (induction stream) (simp_all add: streamGeminiResponse_stream_def chunk_text_of_call)

lemma stream_thought:
  "concat (map (\<lambda>c. orEmpty (chunk_thought c)) (fst (streamGeminiResponse_stream stream)))
     = concat (map thoughtText stream)"
  by (induction stream) (simp_all add: streamGeminiResponse_stream_def chunk_thought_of_call)





































lemma hello_fold:
  "msg_text (foldChunks helloChunks (newPlaceholder now)) = ''Hello!''
   \<and> thoughts (foldChunks helloChunks (newPlaceholder now)) = Some ''thinking''"
  by (simp add: helloChunks_def textChunk_def thoughtChunk_def patchMessage_streaming
      newPlaceholder_streaming applyChunk_streaming)
    (simp add: applyChunk_def Let_def truthy_def emptyChunk_def newPlaceholder_def blankMessage_def)

lemma hello_send:
  "map (\<lambda>m. (msg_id m, sender m, msg_text m, thoughts m, timestamp m)) (allMessages afterHelloSend)
     = [(''1'', User, ''hi'', None, ''Mon 09:59''),
        (''1-ai'', Ai, ''Hello!'', Some ''thinking'', ''Mon 10:00'')]"
  by code_simp

text \<open>
  C4. For a message that is streaming, folding a sequence of chunks appends their text
  fragments, in order, to the text and their reasoning fragments to the thoughts. For a
  stream from the backend the text appended is that of the parts that are neither
  reasoning, code nor code output, and the thoughts appended are the text of the
  reasoning parts. The four chunks of the example, folded into a new placeholder, give
  the text \<open>Hello!\<close> and the thoughts \<open>thinking\<close>, and a send whose stream
  delivers them ends with the placeholder finalized with that text and those thoughts.
\<close>

theorem stream_folds_into_placeholder:
  "(isStreaming m \<longrightarrow>
      msg_text (foldChunks chunks m) = msg_text m @ concat (map (\<lambda>c. orEmpty (chunk_text c)) chunks)
      \<and> orEmpty (thoughts (foldChunks chunks m))
          = orEmpty (thoughts m) @ concat (map (\<lambda>c. orEmpty (chunk_thought c)) chunks)
      \<and> msg_text (foldChunks (fst (streamGeminiResponse_stream stream)) m)
          = msg_text m @ concat (map plainText stream)
      \<and> orEmpty (thoughts (foldChunks (fst (streamGeminiResponse_stream stream)) m))
          = orEmpty (thoughts m) @ concat (map thoughtText stream))
   \<and> msg_text (foldChunks helloChunks (newPlaceholder now)) = ''Hello!''
   \<and> thoughts (foldChunks helloChunks (newPlaceholder now)) = Some ''thinking''
   \<and> map (\<lambda>m. (msg_id m, sender m, msg_text m, thoughts m, timestamp m)) (allMessages afterHelloSend)
       = [(''1'', User, ''hi'', None, ''Mon 09:59''),
          (''1-ai'', Ai, ''Hello!'', Some ''thinking'', ''Mon 10:00'')]"
  using foldChunks_text [of m] foldChunks_thoughts [of m] stream_text [of stream]
    stream_thought [of stream] hello_fold [of now] hello_send
  by simp

lemma helloStream_texts:
  "concat (map plainText helloStream) = ''Hello!''" "concat (map thoughtText helloStream) = ''thinking''"
  by (simp_all add: helloStream_def plainText_def thoughtText_def partsChunk_def blankPart_def
      isTextPart_def truthy_def)

theorem stream_folds_into_placeholder_witness:
  "isStreaming (newPlaceholder 1)
   \<and> msg_text (foldChunks (fst (streamGeminiResponse_stream helloStream)) (newPlaceholder 1)) = ''Hello!''
   \<and> thoughts (foldChunks (fst (streamGeminiResponse_stream helloStream)) (newPlaceholder 1)) = Some ''thinking''"
proof -
  have s: "isStreaming (newPlaceholder 1)"
    by (rule newPlaceholder_streaming)
  have start: "msg_text (newPlaceholder n) = []" "thoughts (newPlaceholder n) = Some []" for n
    by (simp_all add: newPlaceholder_def blankMessage_def)
  have "orEmpty (thoughts (foldChunks (fst (streamGeminiResponse_stream helloStream)) (newPlaceholder 1))) = ''thinking''"
    using stream_folds_into_placeholder [of "newPlaceholder 1" "[]" helloStream 1] s
    by (simp add: start helloStream_texts)
  then have "thoughts (foldChunks (fst (streamGeminiResponse_stream helloStream)) (newPlaceholder 1)) = Some ''thinking''"
    by (cases "thoughts (foldChunks (fst (streamGeminiResponse_stream helloStream)) (newPlaceholder 1))")
      simp_all
  then show ?thesis
    using stream_folds_into_placeholder [of "newPlaceholder 1" "[]" helloStream 1] s
    by (simp add: start helloStream_texts)
qed



subsection \<open>Patching the streaming message\<close>

lemma patchMessage_other: "\<not> isStreaming m \<Longrightarrow> patchMessage chunk m = m"
  by (simp add: patchMessage_def)

lemma list_all2_map_self: "(\<And>x. x \<in> set xs \<Longrightarrow> P x (f x)) \<Longrightarrow> list_all2 P xs (map f xs)"
  by (induction xs) simp_all

lemma map_idI: "(\<And>x. x \<in> set xs \<Longrightarrow> f x = x) \<Longrightarrow> map f xs = xs"
  by (induction xs) simp_all

lemma patchMessage_keeps:
  "msg_id (patchMessage c m) = msg_id m" "sender (patchMessage c m) = sender m"
  "timestamp (patchMessage c m) = timestamp m"
  by (simp_all add: patchMessage_def applyChunk_keeps)

lemma patchConversation_keeps:
  "conv_id (patchConversation k c x) = conv_id x" "conv_title (patchConversation k c x) = conv_title x"
  "model (patchConversation k c x) = model x"
  by (simp_all add: patchConversation_def)

lemma patchConversation_other: "conv_id x \<noteq> k \<Longrightarrow> patchConversation k c x = x"
  by (simp add: patchConversation_def)

lemma streamingIn_empty:
  "streamingIn k s = [] \<longleftrightarrow>
     (\<forall>c \<in> set (conversations s). conv_id c = k \<longrightarrow> (\<forall>m \<in> set (messages c). \<not> (sender m = Ai \<and> timestamp m = [])))"
  by (auto simp: streamingIn_def filter_empty_conv)

lemma tagged_streaming: "senderTagged m \<Longrightarrow> isStreaming m \<Longrightarrow> sender m = Ai \<and> timestamp m = []"
  by (simp add: senderTagged_def isStreaming_def)

lemma patch_noop:
  assumes tagged: "\<forall>c \<in> set (conversations s). \<forall>m \<in> set (messages c). senderTagged m"
    and none: "streamingIn k s = []"
  shows "map (patchConversation k chunk) (conversations s) = conversations s"
proof (rule map_idI)
  fix c assume c: "c \<in> set (conversations s)"
  show "patchConversation k chunk c = c"
  proof (cases "conv_id c = k")
    case False
    then show ?thesis by (rule patchConversation_other)
  next
    case True
    have "map (patchMessage chunk) (messages c) = messages c"
    proof (rule map_idI)
      fix m assume m: "m \<in> set (messages c)"
      have "\<not> isStreaming m"
        using tagged none c m True tagged_streaming [of m] by (auto simp: streamingIn_empty)
      then show "patchMessage chunk m = m" by (rule patchMessage_other)
    qed
    then show ?thesis by (simp add: patchConversation_def)
  qed
qed

lemma patch_frame_messages:
  assumes "\<forall>m \<in> set ms. senderTagged m"
  shows "list_all2 (\<lambda>m m'. msg_id m' = msg_id m \<and> sender m' = sender m \<and> timestamp m' = timestamp m
                       \<and> (sender m = User \<or> timestamp m \<noteq> [] \<longrightarrow> m' = m))
           ms (map (patchMessage chunk) ms)"
proof (rule list_all2_map_self)
  fix m assume "m \<in> set ms"
  with assms have t: "senderTagged m" by blast
  have "patchMessage chunk m = m" if "sender m = User \<or> timestamp m \<noteq> []"
    using that tagged_streaming [OF t] by (intro patchMessage_other) auto
  then show "msg_id (patchMessage chunk m) = msg_id m \<and> sender (patchMessage chunk m) = sender m
      \<and> timestamp (patchMessage chunk m) = timestamp m
      \<and> (sender m = User \<or> timestamp m \<noteq> [] \<longrightarrow> patchMessage chunk m = m)"
    by (simp add: patchMessage_keeps)
qed

lemma messages_patchConversation:
  "list_all2 P (messages c) (map (patchMessage chunk) (messages c)) \<Longrightarrow> (\<And>m. P m m)
   \<Longrightarrow> list_all2 P (messages c) (messages (patchConversation k chunk c))"
  by (simp add: patchConversation_def list_all2_same)

text \<open>
  C9. \<^verbatim>\<open>updateStreamingMessage\<close> has no branch that throws: it is a total function of
  the state. Let every message carry the tag of its sender in its identifier, as the
  messages the application creates do. When the target conversation has no message of the
  assistant with an empty timestamp, the call leaves the list of conversations as it was,
  and the whole state when the repository was loaded. In every case the conversations keep
  their order, identifier, title and model; a conversation other than the target is
  unchanged; the messages keep their order, identifier, sender and timestamp; a message of
  the user and a message with a timestamp are unchanged; and nothing but the repository
  changes.
\<close>

theorem updateStreamingMessage_frame:
  "(\<forall>c \<in> set (conversations s). \<forall>m \<in> set (messages c). senderTagged m) \<longrightarrow>
     (streamingIn k s = [] \<longrightarrow>
        conversations (updateStreamingMessage k chunk s) = conversations s
        \<and> (queryData s \<noteq> None \<longrightarrow> updateStreamingMessage k chunk s = s))
     \<and> list_all2
         (\<lambda>c c'. conv_id c' = conv_id c \<and> conv_title c' = conv_title c \<and> model c' = model c
            \<and> (conv_id c \<noteq> k \<longrightarrow> c' = c)
            \<and> list_all2
                (\<lambda>m m'. msg_id m' = msg_id m \<and> sender m' = sender m \<and> timestamp m' = timestamp m
                   \<and> (sender m = User \<or> timestamp m \<noteq> [] \<longrightarrow> m' = m))
                (messages c) (messages c'))
         (conversations s) (conversations (updateStreamingMessage k chunk s))
     \<and> (updateStreamingMessage k chunk s)\<lparr>queryData := queryData s\<rparr> = s"
proof (intro impI conjI)
  assume tagged: "\<forall>c \<in> set (conversations s). \<forall>m \<in> set (messages c). senderTagged m"
  have after: "conversations (updateStreamingMessage k chunk s) = map (patchConversation k chunk) (conversations s)"
    by (simp add: updateStreamingMessage_def conversations_def)
  {
    assume none: "streamingIn k s = []"
    show "conversations (updateStreamingMessage k chunk s) = conversations s"
      using patch_noop [OF tagged none] by (simp add: after)
    assume "queryData s \<noteq> None"
    then obtain cs where cs: "queryData s = Some cs" by blast
    then have "map (patchConversation k chunk) cs = cs"
      using patch_noop [OF tagged none, of chunk] by (simp add: conversations_def)
    with cs show "updateStreamingMessage k chunk s = s"
      by (simp add: updateStreamingMessage_def conversations_def)
  }
  show "list_all2
         (\<lambda>c c'. conv_id c' = conv_id c \<and> conv_title c' = conv_title c \<and> model c' = model c
            \<and> (conv_id c \<noteq> k \<longrightarrow> c' = c)
            \<and> list_all2
                (\<lambda>m m'. msg_id m' = msg_id m \<and> sender m' = sender m \<and> timestamp m' = timestamp m
                   \<and> (sender m = User \<or> timestamp m \<noteq> [] \<longrightarrow> m' = m))
                (messages c) (messages c'))
         (conversations s) (conversations (updateStreamingMessage k chunk s))"
    unfolding after
  proof (rule list_all2_map_self)
    fix c assume c: "c \<in> set (conversations s)"
    with tagged have "\<forall>m \<in> set (messages c). senderTagged m" by blast
    then have "list_all2
        (\<lambda>m m'. msg_id m' = msg_id m \<and> sender m' = sender m \<and> timestamp m' = timestamp m
           \<and> (sender m = User \<or> timestamp m \<noteq> [] \<longrightarrow> m' = m))
        (messages c) (messages (patchConversation k chunk c))"
      by (intro messages_patchConversation patch_frame_messages) simp_all
    then show "conv_id (patchConversation k chunk c) = conv_id c
        \<and> conv_title (patchConversation k chunk c) = conv_title c
        \<and> model (patchConversation k chunk c) = model c
        \<and> (conv_id c \<noteq> k \<longrightarrow> patchConversation k chunk c = c)
        \<and> list_all2
            (\<lambda>m m'. msg_id m' = msg_id m \<and> sender m' = sender m \<and> timestamp m' = timestamp m
               \<and> (sender m = User \<or> timestamp m \<noteq> [] \<longrightarrow> m' = m))
            (messages c) (messages (patchConversation k chunk c))"
      by (simp add: patchConversation_keeps patchConversation_other)
  qed
  show "(updateStreamingMessage k chunk s)\<lparr>queryData := queryData s\<rparr> = s"
    by (simp add: updateStreamingMessage_def)
qed

lemma afterHelloSend_facts:
  "\<forall>c \<in> set (conversations afterHelloSend). \<forall>m \<in> set (messages c). senderTagged m"
  "streamingIn ''100'' afterHelloSend = []"
  "queryData afterHelloSend \<noteq> None"
  by code_simp+

theorem updateStreamingMessage_frame_witness:
  "streamingIn ''100'' afterHelloSend = [] \<and> queryData afterHelloSend \<noteq> None
   \<and> updateStreamingMessage ''100'' (textChunk ''late'') afterHelloSend = afterHelloSend"
  using updateStreamingMessage_frame [of afterHelloSend "''100''" "textChunk ''late''"]
    afterHelloSend_facts
  by blast

subsection \<open>Saving and loading\<close>

lemma withoutImages_eq: "withoutImages m = m\<lparr>generatedImages := None\<rparr>"
  by (simp add: withoutImages_def)

lemma coerceModel_modelName: "coerceModel (Some (modelName k)) = k"
  by (cases k) (simp_all add: coerceModel_def truthy_def orEmpty_def MODELS_def)

lemma loadConversation_toStored:
  "loadConversation now (toStored c) =
     c\<lparr>conv_id := (if conv_id c \<noteq> [] then conv_id c else digitsOf now),
       conv_title := (if conv_title c \<noteq> [] then conv_title c else ''Untitled Chat''),
       messages := map (\<lambda>m. m\<lparr>generatedImages := None\<rparr>) (messages c)\<rparr>"
  by (simp add: loadConversation_def toStored_def truthy_def orEmpty_def coerceModel_modelName
      withoutImages_eq [abs_def])

lemma save_ok:
  "saveConversations fault cs slot = (Inr saved, slot') \<Longrightarrow>
   saved = cs \<and> slot' = (if cs = [] then None else Some (ConvArray (map toStored cs)))"
  by (cases fault) (auto simp: saveConversations_def split: if_splits)

text \<open>
  C6. When \<^verbatim>\<open>saveConversations\<close> succeeds, what it returns is its argument, and a
  \<^verbatim>\<open>fetchConversations\<close> of the slot it leaves gives the same conversations in the same
  order, each with the same messages in the same order, every message as it was but with
  no generated-image list: text, timestamp and every other property are unchanged. The
  model is read back as it was; an empty identifier or title is replaced by the default of
  the loader. The load leaves the slot as it is.
\<close>

theorem save_load_strips_images:
  assumes "saveConversations fault cs slot = (Inr saved, slot')"
  shows "saved = cs
     \<and> fst (fetchConversations now slot')
         = map (\<lambda>c. c\<lparr>conv_id := (if conv_id c \<noteq> [] then conv_id c else digitsOf now),
                      conv_title := (if conv_title c \<noteq> [] then conv_title c else ''Untitled Chat''),
                      messages := map (\<lambda>m. m\<lparr>generatedImages := None\<rparr>) (messages c)\<rparr>) cs
     \<and> map messages (fst (fetchConversations now slot'))
         = map (\<lambda>c. map (\<lambda>m. m\<lparr>generatedImages := None\<rparr>) (messages c)) cs
     \<and> snd (fetchConversations now slot') = slot'"
proof -
  from save_ok [OF assms]
  have saved: "saved = cs" and slot: "slot' = (if cs = [] then None else Some (ConvArray (map toStored cs)))"
    by simp_all
  have loaded: "fst (fetchConversations now slot')
         = map (\<lambda>c. c\<lparr>conv_id := (if conv_id c \<noteq> [] then conv_id c else digitsOf now),
                      conv_title := (if conv_title c \<noteq> [] then conv_title c else ''Untitled Chat''),
                      messages := map (\<lambda>m. m\<lparr>generatedImages := None\<rparr>) (messages c)\<rparr>) cs"
    by (cases "cs = []") (simp_all add: slot fetchConversations_def loadConversation_toStored o_def)
  have "map messages (fst (fetchConversations now slot'))
         = map (\<lambda>c. map (\<lambda>m. m\<lparr>generatedImages := None\<rparr>) (messages c)) cs"
    by (simp add: loaded o_def)
  moreover have "snd (fetchConversations now slot') = slot'"
    by (cases "cs = []") (simp_all add: slot fetchConversations_def)
  ultimately show ?thesis using saved loaded by simp
qed

lemma gallery_saved:
  "saveConversations NoFault [galleryChat] None = (Inr [galleryChat], Some (ConvArray [toStored galleryChat]))"
  by (simp add: saveConversations_def)

lemma gallery_last:
  "generatedImages (last (messages galleryChat)) = Some [picture]"
  "(last (messages galleryChat))\<lparr>generatedImages := None\<rparr>
     = (newPlaceholder 3)\<lparr>msg_text := imagesText 1, timestamp := ''Mon 11:01'', thinkingTime := Some 1200\<rparr>"
  by (simp_all add: galleryChat_def newPlaceholder_def blankMessage_def)

theorem save_load_strips_images_witness:
  "saveConversations NoFault [galleryChat] None = (Inr [galleryChat], Some (ConvArray [toStored galleryChat]))
   \<and> generatedImages (last (messages galleryChat)) = Some [picture]
   \<and> map messages (fst (fetchConversations 9 (Some (ConvArray [toStored galleryChat]))))
       = [[newUserMessage 3 ''Mon 11:00'' ''a cat'' [],
           (newPlaceholder 3)\<lparr>msg_text := imagesText 1, timestamp := ''Mon 11:01'',
              thinkingTime := Some 1200\<rparr>]]"
  using save_load_strips_images [OF gallery_saved, of 9] gallery_saved gallery_last(1)
  by (simp add: galleryChat_def newPlaceholder_def blankMessage_def newUserMessage_def)

subsection \<open>The context cache\<close>

lemma deletions_append [simp]: "deletions (svc\<lparr>requests := requests svc @ rs\<rparr>) = deletions svc @ concat (map (\<lambda>r. case r of CachesDelete n \<Rightarrow> [n] | ChatsCreate c \<Rightarrow> []) rs)"
  by (simp add: deletions_def)

lemma deleteCache_effect:
  "activeCache (deleteCache t okLine failLine cache svc) = None"
  "requests (deleteCache t okLine failLine cache svc) = requests svc @ [CachesDelete (cache_name cache)]"
  "ai (deleteCache t okLine failLine cache svc) = ai svc"
  "currentModelName (deleteCache t okLine failLine cache svc) = currentModelName svc"
  by (simp_all add: deleteCache_def Let_def)

lemma deleteOld_effect:
  assumes "activeCache svc = Some old"
  shows "activeCache (streamGeminiResponse_deleteOldCache t svc) = None"
    and "requests (streamGeminiResponse_deleteOldCache t svc) = requests svc @ [CachesDelete (cache_name old)]"
  using assms by (simp_all add: streamGeminiResponse_deleteOldCache_def deleteCache_effect)

lemma deletions_requests: "requests s' = requests s @ rs \<Longrightarrow>
   deletions s' = deletions s @ concat (map (\<lambda>r. case r of CachesDelete n \<Rightarrow> [n] | ChatsCreate c \<Rightarrow> []) rs)"
  by (simp add: deletions_def)

lemma replaceCache_effect:
  assumes "activeCache svc = Some old"
  shows "activeCache (streamGeminiResponse_replaceCache t new svc) = Some new"
    and "requests (streamGeminiResponse_replaceCache t new svc) = requests svc @ [CachesDelete (cache_name old)]"
  using assms by (simp_all add: streamGeminiResponse_replaceCache_def deleteOld_effect)

lemma startNewChatSession_reuse:
  assumes "truthy name"
  shows "activeCache (startNewChatSession t m name h svc) = activeCache svc"
    and "deletions (startNewChatSession t m name h svc) = deletions svc"
  using assms
  by (auto simp: startNewChatSession_def Let_def deletions_def split: option.splits)

lemma cleanup_twice: "cleanupActiveCache t' (cleanupActiveCache t svc) = cleanupActiveCache t svc"
  by (simp add: cleanupActiveCache_def deleteCache_effect split: option.splits)

lemma cleanup_none: "activeCache svc = None \<Longrightarrow> cleanupActiveCache t svc = svc"
  by (simp add: cleanupActiveCache_def split: option.splits)

lemma cleanup_some:
  assumes "activeCache svc = Some c" and "ai svc \<noteq> None"
  shows "activeCache (cleanupActiveCache t svc) = None"
    and "deletions (cleanupActiveCache t svc) = deletions svc @ [cache_name c]"
  using assms
  by (auto simp: cleanupActiveCache_def deleteCache_effect deletions_requests split: option.splits)

text \<open>
  C7. With a cache \<open>old\<close> active, the block of \<^verbatim>\<open>streamGeminiResponse\<close> that follows
  the creation of a cache issues exactly one deletion, for \<open>old\<close>, and leaves the handle
  empty, whether the deletion throws (\<open>t\<close>) or not; the assignment after it sets the
  handle to the new cache; and the session started next, for a new cache that has a name,
  issues no further deletion. A teardown with the client initialized issues that one
  deletion and empties the handle, whether it throws or not. A second teardown changes
  nothing, and a teardown with no active cache changes nothing: it issues no deletion.
\<close>

theorem cache_supersession:
  "(activeCache svc = Some old \<longrightarrow>
      activeCache (streamGeminiResponse_deleteOldCache t svc) = None
      \<and> deletions (streamGeminiResponse_deleteOldCache t svc) = deletions svc @ [cache_name old]
      \<and> activeCache (streamGeminiResponse_replaceCache t new svc) = Some new
      \<and> deletions (streamGeminiResponse_replaceCache t new svc) = deletions svc @ [cache_name old]
      \<and> (truthy (cache_name new) \<longrightarrow>
           activeCache (streamGeminiResponse_cachedSession t t' new svc) = Some new
           \<and> deletions (streamGeminiResponse_cachedSession t t' new svc) = deletions svc @ [cache_name old])
      \<and> (ai svc \<noteq> None \<longrightarrow>
           activeCache (cleanupActiveCache t svc) = None
           \<and> deletions (cleanupActiveCache t svc) = deletions svc @ [cache_name old]))
   \<and> cleanupActiveCache t' (cleanupActiveCache t svc) = cleanupActiveCache t svc
   \<and> (activeCache svc = None \<longrightarrow> cleanupActiveCache t svc = svc)"
proof -
  have "activeCache (streamGeminiResponse_cachedSession t t' new svc) = Some new
      \<and> deletions (streamGeminiResponse_cachedSession t t' new svc) = deletions svc @ [cache_name old]"
    if "activeCache svc = Some old" "truthy (cache_name new)"
    using that replaceCache_effect [OF that(1), of t new]
    by (simp add: streamGeminiResponse_cachedSession_def Let_def startNewChatSession_reuse
        deletions_requests)
  then show ?thesis
    using deleteOld_effect [of svc old t] replaceCache_effect [of svc old t new]
      cleanup_some [of svc old t] cleanup_twice [of t' t svc] cleanup_none [of svc t]
    by (auto simp: deletions_requests)
qed

lemma cachedService_facts:
  "activeCache cachedService = Some oldCache" "ai cachedService \<noteq> None"
  "truthy (cache_name newCache)" "deletions cachedService = []"
  by (simp_all add: cachedService_def newCache_def truthy_def deletions_def)

theorem cache_supersession_witness:
  "activeCache cachedService = Some oldCache \<and> truthy (cache_name newCache) \<and> ai cachedService \<noteq> None
   \<and> activeCache (streamGeminiResponse_deleteOldCache True cachedService) = None
   \<and> activeCache (streamGeminiResponse_cachedSession True False newCache cachedService) = Some newCache
   \<and> deletions (streamGeminiResponse_cachedSession True False newCache cachedService) = [cache_name oldCache]
   \<and> activeCache (cleanupActiveCache True cachedService) = None
   \<and> deletions (cleanupActiveCache False (cleanupActiveCache True cachedService)) = [cache_name oldCache]"
  using cache_supersession [of cachedService oldCache True newCache False] cachedService_facts
  by simp

subsection \<open>Identifiers carry the sender\<close>

text \<open>
  The messages the application creates satisfy the assumption of C9: the identifier of a
  message of the user, and that of the first message of a new chat, end with a decimal
  digit, never with \<^verbatim>\<open>-ai\<close>.
\<close>

lemma digitsOf_last: "digitsOf n \<noteq> [] \<and> last (digitsOf n) = char_of (48 + n mod 10)"
  by (subst (1 2) digitsOf.simps) (simp del: digitsOf.simps)

lemma digit_code: "k < 10 \<Longrightarrow> (of_char (char_of (48 + k :: nat)) :: nat) = 48 + k"
  by (simp add: of_char_of)

lemma digit_not_i: "k < 10 \<Longrightarrow> char_of (48 + k :: nat) \<noteq> CHR ''i''"
proof
  assume k: "k < 10" and "char_of (48 + k :: nat) = CHR ''i''"
  then have "(of_char (char_of (48 + k :: nat)) :: nat) = of_char (CHR ''i'')"
    by (simp only:)
  with digit_code [OF k] have "48 + k = (of_char (CHR ''i'') :: nat)"
    by (simp only:)
  also have "(of_char (CHR ''i'') :: nat) = 105"
    by simp
  finally show False using k by simp
qed

lemma last_tag: "last (zs @ ''-ai'') = CHR ''i''"
  by simp

lemma ends_with_digit_not_tagged: "\<not> endsWith (p @ digitsOf n) ''-ai''"
proof
  assume "endsWith (p @ digitsOf n) ''-ai''"
  then have "suffix ''-ai'' (p @ digitsOf n)"
    by (simp only: endsWith_def)
  then obtain zs where eq: "p @ digitsOf n = zs @ ''-ai''"
    unfolding suffix_def by blast
  have "last (p @ digitsOf n) = CHR ''i''"
    by (simp only: eq last_tag)
  moreover have "digitsOf n \<noteq> []"
    using digitsOf_last [of n] by blast
  then have "last (p @ digitsOf n) = last (digitsOf n)"
    by (rule last_appendR)
  moreover have "last (digitsOf n) = char_of (48 + n mod 10)"
    using digitsOf_last [of n] by blast
  moreover have "n mod 10 < 10"
    by simp
  ultimately show False
    using digit_not_i [of "n mod 10"] by (simp only:)
qed

lemma newUserMessage_tagged: "senderTagged (newUserMessage now stamp txt fs)"
  using ends_with_digit_not_tagged [of "[]" now]
  by (simp add: senderTagged_def newUserMessage_def blankMessage_def del: digitsOf.simps)

lemma newPlaceholder_tagged: "senderTagged (newPlaceholder now)"
  by (simp add: senderTagged_def newPlaceholder_def blankMessage_def del: digitsOf.simps)

lemma initialMessage_tagged: "senderTagged (m\<lparr>msg_id := ''initial-'' @ digitsOf now, timestamp := stamp\<rparr>)"
  using ends_with_digit_not_tagged [of "''initial-''" now]
  by (simp add: senderTagged_def del: digitsOf.simps)

subsection \<open>Escalation to the highest-capability model\<close>

lemma ms_updateConversationsAsync [simp]:
  "modelState (snd (updateConversationsAsync fault cs s)) = modelState s"
  by (simp add: modelState_def updateConversationsAsync_def Let_def
      split: prod.splits sum.splits option.splits)

lemma ms_updateConversations [simp]: "modelState (updateConversations fault cs s) = modelState s"
  by (simp add: updateConversations_def)

lemma ms_updateConversations_onMutate [simp]:
  "modelState (snd (updateConversations_onMutate cs s)) = modelState s"
  by (simp add: modelState_def updateConversations_onMutate_def)

lemma ms_updateConversations_settle [simp]:
  "modelState (updateConversations_settle fault cs previous s) = modelState s"
  by (simp add: modelState_def updateConversations_settle_def
      split: prod.splits sum.splits option.splits)

lemma ms_updateStreamingMessage [simp]: "modelState (updateStreamingMessage k c s) = modelState s"
  by (simp add: modelState_def updateStreamingMessage_def)

lemma ms_queryData [simp]: "modelState (s\<lparr>queryData := q\<rparr>) = modelState s"
  by (simp add: modelState_def)

lemma ms_fileErrors [simp]: "modelState (s\<lparr>fileErrors := e\<rparr>) = modelState s"
  by (simp add: modelState_def)

lemma ms_effects [simp]: "modelState (s\<lparr>effects := e\<rparr>) = modelState s"
  by (simp add: modelState_def)

lemma ms_modal [simp]: "modelState (s\<lparr>showApiKeyModal := b\<rparr>) = modelState s"
  by (simp add: modelState_def)

lemma ms_loading [simp]: "modelState (s\<lparr>isLoading := b\<rparr>) = modelState s"
  by (simp add: modelState_def)

lemma ms_token [simp]: "modelState (s\<lparr>activeStreamingRef := r\<rparr>) = modelState s"
  by (simp add: modelState_def)

lemma ms_handleSendMessage [simp]:
  "modelState (fst (handleSendMessage now stamp txt fs s)) = modelState s"
  by (simp add: handleSendMessage_def Let_def split: option.splits)

lemma ms_onMutate [simp]: "modelState (snd (sendMessage_onMutate p vars s)) = modelState s"
  by (simp add: sendMessage_onMutate_def Let_def split: option.splits)

lemma ms_deliver [simp]: "modelState (deliver k s cb) = modelState s"
  by (simp add: deliver_def)

lemma ms_deliverStatus [simp]: "modelState (deliverStatus k s cb) = modelState s"
  by (simp add: deliverStatus_def split: Callback.splits)

lemma ms_foldl_deliver [simp]: "modelState (foldl (deliver k) s cbs) = modelState s"
  by (induction cbs arbitrary: s) simp_all

lemma ms_foldl_deliverStatus [simp]: "modelState (foldl (deliverStatus k) s cbs) = modelState s"
  by (induction cbs arbitrary: s) simp_all

lemma ms_onSuccess [simp]:
  "modelState (snd (sendMessage_onSuccess p stamp fault res ctx s)) = modelState s"
  by (simp add: sendMessage_onSuccess_def Let_def split: prod.splits)

lemma ms_onError [simp]: "modelState (sendMessage_onError stamp fault e ctx s) = modelState s"
  by (simp add: sendMessage_onError_def Let_def split: option.splits)

lemma ms_onSettled [simp]: "modelState (sendMessage_onSettled ctx s) = modelState s"
  by (simp add: sendMessage_onSettled_def)

lemma ms_mutationFn_pass:
  assumes "conversationsMap_get (conversations s) (targetConversationId vars) \<noteq> None"
    and "activeStreamingRef s = None \<or> activeStreamingRef s = Some (targetConversationId vars)"
  shows "modelState (snd (sendMessage_mutationFn h out vars s))
       = (isProSession s \<or> requiresProModelNow (v_text vars) (v_files vars), selectedModel s,
          if selectedModel s = FlashImage then activeModel s
          else targetModel (isProSession s) (selectedModel s) (v_text vars) (v_files vars))"
  using assms
  by (cases "out_thrown out")
    (auto simp: sendMessage_mutationFn_def Let_def modelState_def [of "_\<lparr>isProSession := _\<rparr>"]
      modelState_def [of "_\<lparr>activeModel := _\<rparr>"] modelState_def [of s])

lemma ms_mutationFn:
  "modelState (snd (sendMessage_mutationFn h out vars s)) = modelState s
   \<or> modelState (snd (sendMessage_mutationFn h out vars s))
       = (isProSession s \<or> requiresProModelNow (v_text vars) (v_files vars), selectedModel s,
          if selectedModel s = FlashImage then activeModel s
          else targetModel (isProSession s) (selectedModel s) (v_text vars) (v_files vars))"
proof (cases "conversationsMap_get (conversations s) (targetConversationId vars)")
  case None
  then show ?thesis by (simp add: sendMessage_mutationFn_def Let_def)
next
  case (Some c)
  show ?thesis
  proof (cases "activeStreamingRef s \<noteq> None \<and> activeStreamingRef s \<noteq> Some (targetConversationId vars)")
    case True
    with Some show ?thesis by (simp add: sendMessage_mutationFn_def Let_def)
  next
    case False
    with Some show ?thesis using ms_mutationFn_pass [of s vars h out] by auto
  qed
qed

lemma ms_sendMessageMutation:
  "modelState (sendMessageMutation h titleFault env started s) = modelState s
   \<or> modelState (sendMessageMutation h titleFault env started s)
       = (isProSession s
            \<or> requiresProModelNow (v_text (send_vars started)) (v_files (send_vars started)),
          selectedModel s,
          if selectedModel s = FlashImage then activeModel s
          else targetModel (isProSession s) (selectedModel s)
                 (v_text (send_vars started)) (v_files (send_vars started)))"
proof -
  let ?vars = "send_vars started"
  let ?tm = "case title_update started of
               Some updatedWithTitle \<Rightarrow> updateConversations_onMutate updatedWithTitle s
             | None \<Rightarrow> (None, s)"
  have tm: "modelState (snd ?tm) = modelState s"
    by (simp split: option.splits)
  obtain ctx s0 where m: "sendMessage_onMutate (perfStart env) ?vars (snd ?tm) = (ctx, s0)"
    by (cases "sendMessage_onMutate (perfStart env) ?vars (snd ?tm)")
  then have s0: "modelState s0 = modelState s"
    using ms_onMutate [of "perfStart env" ?vars "snd ?tm"] tm by simp
  let ?s1 = "case title_update started of
               Some updatedWithTitle \<Rightarrow>
                 updateConversations_settle titleFault updatedWithTitle (fst ?tm) s0
             | None \<Rightarrow> s0"
  have s1: "modelState ?s1 = modelState s"
    using s0 by (simp split: option.splits)
  obtain r s2 where f: "sendMessage_mutationFn h (outcome env) ?vars ?s1 = (r, s2)"
    by (cases "sendMessage_mutationFn h (outcome env) ?vars ?s1")
  have run: "sendMessageMutation h titleFault env started s =
      (case r of
         Inl e \<Rightarrow>
           sendMessage_onSettled ctx (sendMessage_onError (doneStamp env) (errorSaveFault env) e ctx s2)
       | Inr res \<Rightarrow>
           (case sendMessage_onSuccess (perfEnd env) (doneStamp env) (saveFault env) res ctx s2 of
              (None, s3) \<Rightarrow> sendMessage_onSettled ctx s3
            | (Some e, s3) \<Rightarrow>
                sendMessage_onSettled ctx
                  (sendMessage_onError (doneStamp env) (errorSaveFault env) e ctx s3)))"
    unfolding sendMessageMutation_def Let_def m f prod.case ..
  have after: "modelState (sendMessageMutation h titleFault env started s) = modelState s2"
  proof (cases r)
    case (Inl e)
    then show ?thesis by (simp add: run)
  next
    case (Inr res)
    obtain t s3 where g: "sendMessage_onSuccess (perfEnd env) (doneStamp env) (saveFault env) res ctx s2 = (t, s3)"
      by (cases "sendMessage_onSuccess (perfEnd env) (doneStamp env) (saveFault env) res ctx s2")
    then have "modelState s3 = modelState s2"
      using ms_onSuccess [of "perfEnd env" "doneStamp env" "saveFault env" res ctx s2] by simp
    with g Inr show ?thesis
      by (cases t) (simp_all add: run)
  qed
  from s1 have fields: "isProSession ?s1 = isProSession s" "selectedModel ?s1 = selectedModel s"
      "activeModel ?s1 = activeModel s"
    by (simp_all add: modelState_def)
  show ?thesis
    using ms_mutationFn [of h "outcome env" ?vars ?s1] f after s1 fields by auto
qed

lemma handleSendMessage_snd:
  "(case snd (handleSendMessage now stamp txt fs s) of
      None \<Rightarrow> True
    | Some started \<Rightarrow>
        v_text (send_vars started) = txt \<and> v_files (send_vars started) = valid (validateFiles fs))"
  by (simp add: handleSendMessage_def Let_def split: option.splits)

lemma handleSendMessage_vars:
  "handleSendMessage now stamp txt fs s = (s', Some started) \<Longrightarrow>
   v_text (send_vars started) = txt \<and> v_files (send_vars started) = valid (validateFiles fs)"
  using handleSendMessage_snd [of "txt" fs "now" stamp s] by simp

lemma ms_sendMessage:
  "modelState (sendMessage now stamp fault env txt fs s) = modelState s
   \<or> modelState (sendMessage now stamp fault env txt fs s)
       = (isProSession s \<or> requiresProModelNow txt (valid (validateFiles fs)), selectedModel s,
          if selectedModel s = FlashImage then activeModel s
          else targetModel (isProSession s) (selectedModel s) txt (valid (validateFiles fs)))"
proof -
  obtain s' v where h: "handleSendMessage now stamp txt fs s = (s', v)"
    by (cases "handleSendMessage now stamp txt fs s")
  then have s': "modelState s' = modelState s"
    using ms_handleSendMessage [of "now" stamp "txt" fs s] by simp
  then have fields: "isProSession s' = isProSession s" "selectedModel s' = selectedModel s"
      "activeModel s' = activeModel s"
    by (simp_all add: modelState_def)
  show ?thesis
  proof (cases v)
    case None
    with h s' show ?thesis by (simp add: sendMessage_def)
  next
    case (Some started)
    with h have "v_text (send_vars started) = txt
        \<and> v_files (send_vars started) = valid (validateFiles fs)"
      using handleSendMessage_vars by blast
    with h Some s' fields ms_sendMessageMutation [of "chatHistory s" fault env started s']
    show ?thesis
      by (auto simp: sendMessage_def)
  qed
qed

lemma pro_sendMessage: "isProSession s \<Longrightarrow> isProSession (sendMessage now stamp fault env txt fs s)"
  using ms_sendMessage [of "now" stamp fault env "txt" fs s] by (auto simp: modelState_def)

lemma selected_sendMessage: "selectedModel (sendMessage now stamp fault env txt fs s) = selectedModel s"
  using ms_sendMessage [of "now" stamp fault env "txt" fs s] by (auto simp: modelState_def)

lemma activeModel_sendMessage:
  "activeModel (sendMessage now stamp fault env txt fs s) = activeModel s
   \<or> activeModel (sendMessage now stamp fault env txt fs s)
       = targetModel (isProSession s) (selectedModel s) txt (valid (validateFiles fs))"
  using ms_sendMessage [of "now" stamp fault env "txt" fs s]
  by (cases "selectedModel s = FlashImage") (auto simp: modelState_def)

lemma mutationFn_escalates:
  assumes "conversationsMap_get (conversations s) (targetConversationId vars) \<noteq> None"
    and "activeStreamingRef s = None \<or> activeStreamingRef s = Some (targetConversationId vars)"
    and "requiresProModelNow (v_text vars) (v_files vars)"
  shows "isProSession (snd (sendMessage_mutationFn h out vars s))"
  using ms_mutationFn_pass [OF assms(1,2), of h out] assms(3) by (simp add: modelState_def)

lemma pro_updateConversations: "isProSession (updateConversations fault cs s) = isProSession s"
  using ms_updateConversations [of fault cs s] by (simp add: modelState_def)

lemma pro_select: "isProSession (handleSelectConversation k s) = isProSession s"
  by (simp add: handleSelectConversation_def split: option.splits)

lemma pro_modelChange:
  assumes "conversationsMap_get (conversations s) (orEmpty (activeConversationId s)) \<noteq> None"
  shows "isProSession (handleModelChange m n st fl init s) = isProSession s"
proof -
  from assms obtain c where "conversationsMap_get (conversations s) (orEmpty (activeConversationId s)) = Some c"
    by blast
  then show ?thesis
    by (simp add: handleModelChange_def Let_def pro_updateConversations)
qed

lemma pro_delete:
  assumes "\<not> (confirmDelete \<and> activeConversationId s = Some k
              \<and> filter (\<lambda>c. conv_id c \<noteq> k) (conversations s) = [])"
  shows "isProSession (handleDeleteConversation confirmDelete k n st fl fl' init s) = isProSession s"
proof (cases "confirmDelete \<and> activeConversationId s = Some k")
  case False
  then show ?thesis
    by (auto simp: handleDeleteConversation_def Let_def pro_updateConversations)
next
  case True
  with assms obtain x xs where "filter (\<lambda>c. conv_id c \<noteq> k) (conversations s) = x # xs"
    by (cases "filter (\<lambda>c. conv_id c \<noteq> k) (conversations s)") auto
  with True show ?thesis
    by (simp add: handleDeleteConversation_def Let_def pro_updateConversations)
qed

lemma pro_step: "isProSession s \<Longrightarrow> \<not> startsNewChat s ev \<Longrightarrow> isProSession (step s ev)"
  by (cases ev) (simp_all add: pro_sendMessage pro_select pro_modelChange pro_delete)

lemma pro_run: "isProSession s \<Longrightarrow> withoutNewChat s evs \<Longrightarrow> isProSession (foldl step s evs)"
  by (induction evs arbitrary: s) (simp_all add: pro_step)

lemma newChat_resets:
  "truthy (apiKey s) \<Longrightarrow> \<not> isProSession (handleNewChat n st fl init s)"
  by (simp add: handleNewChat_def newChat_def Let_def)

lemma targetModel_pro: "targetModel True sel t fs = (if sel = FlashImage then FlashImage else Pro)"
  by (simp add: targetModel_def)

text \<open>
  C8, as the code has it. The flag \<^verbatim>\<open>isProSession\<close> is one variable of the component,
  not a property of a conversation. A send that passes the guards of \<^verbatim>\<open>mutationFn\<close> and
  carries a file or a URL-like token sets it. Once set it stays set through every later
  send, selection of a conversation, change of model and deletion that does not reach
  \<^verbatim>\<open>handleNewChat\<close>, and while it is set every send resolves to the highest-capability
  model unless the selected model is the image-generation variant, which is used as it
  is. \<^verbatim>\<open>handleNewChat\<close>, with a key set, clears it.
\<close>

theorem escalation_sticky_until_new_chat:
  "(conversationsMap_get (conversations s) (targetConversationId vars) \<noteq> None
      \<and> (activeStreamingRef s = None \<or> activeStreamingRef s = Some (targetConversationId vars))
      \<and> requiresProModelNow (v_text vars) (v_files vars)
    \<longrightarrow> isProSession (snd (sendMessage_mutationFn h out vars s)))
   \<and> (isProSession s \<and> withoutNewChat s evs \<longrightarrow>
        isProSession (foldl step s evs)
        \<and> targetModel (isProSession (foldl step s evs)) (selectedModel (foldl step s evs)) t fs
            = (if selectedModel (foldl step s evs) = FlashImage then FlashImage else Pro))
   \<and> (truthy (apiKey s) \<longrightarrow> \<not> isProSession (handleNewChat n st fl init s))"
  using mutationFn_escalates [of s vars h out] pro_run [of s evs] newChat_resets [of s n st fl init]
  by (auto simp: targetModel_pro)

lemma digits_samples: "digitsOf 7 = ''7''" "digitsOf 8 = ''8''" "digitsOf 300 = ''300''"
  by code_simp+

lemmas run_defs =
  sendMessage_def handleSendMessage_def sendMessageMutation_def sendMessage_onMutate_def
  sendMessage_mutationFn_def sendMessage_onSuccess_def sendMessage_onError_def
  sendMessage_onSettled_def updateConversationsAsync_def updateConversations_def
  updateConversations_onMutate_def updateConversations_settle_def saveConversations_def updateStreamingMessage_def deliver_def deliverStatus_def
  conversations_def conversationsMap_get_def truthy_def orEmpty_def Let_def
  validateFiles_def validateFile_def MAX_FILE_SIZE_def ALLOWED_TYPES_def startsWith_def
  requiresProModelNow_def targetModel_def trim_def isSpace_def chatHistory_def

lemma escalatedApp_facts:
  "isProSession escalatedApp" "activeModel escalatedApp = Pro"
  "activeConversationId escalatedApp = Some ''100''" "selectedModel escalatedApp = Flash"
  "truthy (apiKey escalatedApp)"
  "map_option model (conversationsMap_get (conversations escalatedApp) ''100'') = Some Flash"
  by (simp_all add: escalatedApp_def sendPhoto_def run_defs readyApp_def chatA_def chatB_def photo_def
      helloEnv_def helloChunks_def digits_samples patchConversation_keeps del: digitsOf.simps)

lemma handleNewChat_fields:
  assumes "truthy (apiKey s)"
  shows "activeConversationId (handleNewChat n st NoFault init s) = Some (digitsOf n)"
    and "\<not> isProSession (handleNewChat n st NoFault init s)"
    and "selectedModel (handleNewChat n st NoFault init s) = selectedModel s"
    and "\<exists>c. conversations (handleNewChat n st NoFault init s) = c # conversations s"
  using assms
  by (simp_all add: handleNewChat_def newChat_def Let_def updateConversations_def
      updateConversationsAsync_def saveConversations_def conversations_def del: digitsOf.simps)

lemma lookup_Cons:
  "conversationsMap_get cs k = Some c \<Longrightarrow> conversationsMap_get (x # cs) k = Some c"
  by (simp add: conversationsMap_get_def map_add_def)

lemma handleSelectConversation_fields:
  assumes "conversationsMap_get (conversations s) k = Some c"
  shows "activeConversationId (handleSelectConversation k s) = Some k"
    and "selectedModel (handleSelectConversation k s) = model c"
    and "activeModel (handleSelectConversation k s) = model c"
  using assms by (simp_all add: handleSelectConversation_def)

lemma returnedApp_unfold:
  "returnedApp = handleSelectConversation ''100'' (handleNewChat 300 ''Mon 10:05'' NoFault greeting escalatedApp)"
  by (simp add: returnedApp_def escalatedApp_def)

lemma returnedApp_facts:
  "activeConversationId returnedApp = Some ''100''" "\<not> isProSession returnedApp"
  "selectedModel returnedApp = Flash" "activeModel returnedApp = Flash"
proof -
  let ?n = "handleNewChat 300 ''Mon 10:05'' NoFault greeting escalatedApp"
  obtain c where c: "conversationsMap_get (conversations escalatedApp) ''100'' = Some c" "model c = Flash"
    using escalatedApp_facts(6) by auto
  obtain x where "conversations ?n = x # conversations escalatedApp"
    using handleNewChat_fields(4) [OF escalatedApp_facts(5)] by blast
  with c have look: "conversationsMap_get (conversations ?n) ''100'' = Some c"
    by (simp add: lookup_Cons)
  show "activeConversationId returnedApp = Some ''100''" "selectedModel returnedApp = Flash"
    "activeModel returnedApp = Flash"
    using handleSelectConversation_fields [OF look] c(2) by (simp_all add: returnedApp_unfold)
  show "\<not> isProSession returnedApp"
    using handleNewChat_fields(2) [OF escalatedApp_facts(5), of 300 "''Mon 10:05''" greeting]
    by (simp add: returnedApp_unfold pro_select)
qed

lemma plain_text_target: "targetModel False Flash ''and then?'' [] = Flash"
  by (simp add: targetModel_def requiresProModelNow_def matchUrlAt_def)

text \<open>
  C8 as stated fails once a new chat comes in between. The first conversation is
  escalated by a send with a picture; a new chat is started; the first conversation is
  selected again. The flag is then clear, and a send of plain text in that same
  conversation resolves to its selected model, not to the highest-capability one.
\<close>

theorem escalation_lost_after_new_chat:
  "isProSession escalatedApp \<and> activeModel escalatedApp = Pro
   \<and> activeConversationId escalatedApp = Some ''100''
   \<and> activeConversationId returnedApp = Some ''100''
   \<and> \<not> isProSession returnedApp
   \<and> targetModel (isProSession returnedApp) (selectedModel returnedApp) ''and then?'' [] = Flash
   \<and> activeModel (step returnedApp sendText) = Flash"
proof -
  have "activeModel (step returnedApp sendText) = Flash"
    using activeModel_sendMessage [of 8 "''Mon 10:10''" NoFault helloEnv "''and then?''" "[]" returnedApp]
      returnedApp_facts plain_text_target
    by (simp add: sendText_def validateFiles_def)
  then show ?thesis
    using escalatedApp_facts returnedApp_facts plain_text_target by simp
qed

theorem escalation_sticky_until_new_chat_witness:
  "isProSession escalatedApp \<and> withoutNewChat escalatedApp [sendText] \<and> truthy (apiKey escalatedApp)
   \<and> isProSession (foldl step escalatedApp [sendText])
   \<and> targetModel (isProSession (foldl step escalatedApp [sendText]))
        (selectedModel (foldl step escalatedApp [sendText])) ''more'' [] = Pro
   \<and> \<not> isProSession (handleNewChat 300 ''Mon 10:05'' NoFault greeting escalatedApp)"
proof -
  have w: "withoutNewChat escalatedApp [sendText]"
    by (simp add: sendText_def)
  have "selectedModel (foldl step escalatedApp [sendText]) = Flash"
    by (simp add: sendText_def selected_sendMessage escalatedApp_facts)
  then show ?thesis
    using escalation_sticky_until_new_chat
      [of escalatedApp sampleVars "[]" quietOutcome "[sendText]" "''more''" "[]" 300 "''Mon 10:05''" NoFault
        greeting]
      escalatedApp_facts w
    by (simp add: targetModel_pro)
qed

end
